theory Spec2Isabelle
  imports Complex_Main "HOL-Library.AList"
begin

section \<open>JavaScript values\<close>

text \<open>
  Values that reach the proxy through \<^verbatim>\<open>JSON.parse\<close> (TypeScript types \<^verbatim>\<open>any\<close>,
  \<^verbatim>\<open>unknown\<close>, \<^verbatim>\<open>Record<string, unknown>\<close>), together with \<^verbatim>\<open>undefined\<close>,
  the value of a missing property. An object is the list of its own properties.
\<close>

datatype jsval =
    Undefined
  | Null
  | Bool bool
  | Num real
  | Str string
  | Arr "jsval list"
  | Obj "(string \<times> jsval) list"

text \<open>\<^verbatim>\<open>typeof v === "object"\<close>: true of objects, arrays and \<^verbatim>\<open>null\<close>.\<close>

fun typeof_object :: "jsval \<Rightarrow> bool" where
  "typeof_object Null = True"
| "typeof_object (Arr xs) = True"
| "typeof_object (Obj kvs) = True"
| "typeof_object v = False"

text \<open>JavaScript truthiness (\<^verbatim>\<open>if (v)\<close>, \<^verbatim>\<open>v ? a : b\<close>, \<^verbatim>\<open>v && w\<close>).\<close>

fun truthy :: "jsval \<Rightarrow> bool" where
  "truthy Undefined = False"
| "truthy Null = False"
| "truthy (Bool b) = b"
| "truthy (Num n) = (n \<noteq> 0)"
| "truthy (Str s) = (s \<noteq> [])"
| "truthy (Arr xs) = True"
| "truthy (Obj kvs) = True"

text \<open>\<^verbatim>\<open>v == null\<close>: the receivers on which a property read throws a TypeError and on
  which \<^verbatim>\<open>?.\<close> and \<^verbatim>\<open>??\<close> take their short cut.\<close>

fun nullish :: "jsval \<Rightarrow> bool" where
  "nullish Undefined = True"
| "nullish Null = True"
| "nullish v = False"

text \<open>
  \<^verbatim>\<open>v.k\<close> on a receiver that is not nullish. The property names the proxy reads
  (\<^verbatim>\<open>type\<close>, \<^verbatim>\<open>delta\<close>, \<^verbatim>\<open>text\<close>, \<^verbatim>\<open>function\<close>, \<^verbatim>\<open>name\<close>, \<^verbatim>\<open>model\<close>, ...) are defined on no
  built-in prototype, so only an object's own properties answer; primitives and arrays
  give \<^verbatim>\<open>undefined\<close>.
\<close>

fun js_get :: "jsval \<Rightarrow> string \<Rightarrow> jsval" where
  "js_get (Obj kvs) k = (case map_of kvs k of Some v \<Rightarrow> v | None \<Rightarrow> Undefined)"
| "js_get v k = Undefined"

text \<open>\<^verbatim>\<open>v?.k\<close>\<close>

definition opt_get :: "jsval \<Rightarrow> string \<Rightarrow> jsval" where
  "opt_get v k = (if nullish v then Undefined else js_get v k)"

text \<open>\<^verbatim>\<open>v ?? d\<close>\<close>

definition nullish_or :: "jsval \<Rightarrow> jsval \<Rightarrow> jsval" where
  "nullish_or v d = (if nullish v then d else v)"

section \<open>provider.ts: OpenAI \<open>tool_choice\<close> to Anthropic \<open>tool_choice\<close>\<close>

text \<open>
  \<^verbatim>\<open>convertToolChoiceToAnthropic(toolChoice: unknown): { type: string; name?: string } | undefined\<close>.
  The result is the object literal the function returns.
\<close>

definition convertToolChoiceToAnthropic :: "jsval \<Rightarrow> jsval" where
  "convertToolChoiceToAnthropic toolChoice =
     (if toolChoice = Str ''none'' then Obj [(''type'', Str ''none'')]
      else if toolChoice = Str ''auto'' \<or> toolChoice = Undefined then Obj [(''type'', Str ''auto'')]
      else if toolChoice = Str ''required'' then Obj [(''type'', Str ''any'')]
      else if typeof_object toolChoice \<and> toolChoice \<noteq> Null
              \<and> truthy (opt_get (js_get toolChoice ''function'') ''name'')
           then Obj [(''type'', Str ''tool''),
                     (''name'', js_get (js_get toolChoice ''function'') ''name'')]
      else Obj [(''type'', Str ''auto'')])"

text \<open>An object whose \<^verbatim>\<open>function.name\<close> is present (truthy), as the source tests it.\<close>

definition carries_function_name :: "jsval \<Rightarrow> bool" where
  "carries_function_name v =
     (typeof_object v \<and> v \<noteq> Null \<and> truthy (opt_get (js_get v ''function'') ''name''))"

section \<open>Strings\<close>

text \<open>
  JavaScript strings are modelled as lists of 8-bit characters (the Latin-1 range of
  UTF-16 code units). White space is what \<^verbatim>\<open>String.prototype.trim\<close> and the regular
  expression class \<^verbatim>\<open>\s\<close> accept in that range: tab, line feed, vertical tab, form
  feed, carriage return, space and no-break space.
\<close>

definition is_space :: "char \<Rightarrow> bool" where
  "is_space c = (c \<in> {CHR 0x09, CHR 0x0A, CHR 0x0B, CHR 0x0C, CHR 0x0D, CHR 0x20, CHR 0xA0})"

definition trim :: "string \<Rightarrow> string" where
  "trim s = rev (dropWhile is_space (rev (dropWhile is_space s)))"

definition startsWith :: "string \<Rightarrow> string \<Rightarrow> bool" where
  "startsWith s p = (take (length p) s = p)"

text \<open>\<^verbatim>\<open>s.split("\n")\<close>: the segments between line feeds; never empty.\<close>

fun split_nl :: "string \<Rightarrow> string list" where
  "split_nl [] = [[]]"
| "split_nl (c # cs) =
     (if c = CHR 0x0A then [] # split_nl cs
      else (case split_nl cs of l # ls \<Rightarrow> (c # l) # ls | [] \<Rightarrow> [[c]]))"

text \<open>Decimal rendering of a non-negative integer, as a template literal does.\<close>

fun show_nat :: "nat \<Rightarrow> string" where
  "show_nat n = (if n < 10 then [''0123456789'' ! n]
                 else show_nat (n div 10) @ [''0123456789'' ! (n mod 10)])"

declare show_nat.simps [simp del]

section \<open>The client response\<close>

text \<open>
  A chunk as \<^verbatim>\<open>makeChunk\<close> builds it, and the completion object of the non-streaming
  path. \<^verbatim>\<open>delta\<close> is a \<^verbatim>\<open>Record<string, unknown>\<close>.
\<close>

record choice =
  choice_index :: nat
  delta :: jsval
  finish_reason :: "string option"

record chunk =
  chunk_id :: string
  chunk_object :: string
  chunk_created :: nat
  chunk_model :: string
  choices :: "choice list"

text \<open>
  A content block of the Anthropic Messages API, in the request (\<^verbatim>\<open>contentBlocks\<close>,
  the \<^verbatim>\<open>tool_result\<close> literal) and in the response
  (\<^verbatim>\<open>{ type: string; text?: string; thinking?: string; id?: string; name?: string; input?: unknown }\<close>).
  An absent \<^verbatim>\<open>input\<close> is \<open>Undefined\<close>.
\<close>

record content_block =
  block_type :: string
  block_text :: "string option"
  block_thinking :: "string option"
  block_id :: "string option"
  block_name :: "string option"
  block_input :: jsval
  block_tool_use_id :: "string option"
  block_content :: "string option"

record usage =
  input_tokens :: nat
  output_tokens :: nat

text \<open>The body of a non-streaming Anthropic response, as \<^verbatim>\<open>response.json()\<close> is cast.\<close>

record anthropic_message =
  msg_content :: "content_block list"
  msg_usage :: "usage option"
  msg_model :: string
  msg_stop_reason :: "string option"

text \<open>\<^verbatim>\<open>OpenAIToolCall\<close>\<close>

record tool_call =
  call_id :: string
  call_type :: string
  function_name :: string
  function_arguments :: string

text \<open>The \<^verbatim>\<open>openaiResponse\<close> object of the non-streaming path.\<close>

record completion_message =
  cm_role :: string
  cm_content :: "string option"
  cm_tool_calls :: "tool_call list option"

record completion_choice =
  cc_index :: nat
  cc_message :: completion_message
  cc_finish_reason :: string

record completion_usage =
  prompt_tokens :: nat
  completion_tokens :: nat
  total_tokens :: nat

record completion =
  completion_id :: string
  completion_object :: string
  completion_created :: nat
  completion_model :: string
  completion_choices :: "completion_choice list"
  completion_usage :: completion_usage

text \<open>
  What \<^verbatim>\<open>res.write\<close> and \<^verbatim>\<open>res.end\<close> send. \<open>SseChunk c\<close> is the string
  \<^verbatim>\<open>`data: ${JSON.stringify(c)}\n\n`\<close>, \<open>SseJson v\<close> the same for a value that was passed
  through, \<open>JsonBody v\<close> is \<^verbatim>\<open>JSON.stringify(v)\<close>, \<open>CompletionBody r\<close> is
  \<^verbatim>\<open>JSON.stringify(r)\<close> for the completion object, \<open>Raw s\<close> is the string \<open>s\<close>.
\<close>

datatype payload =
    SseChunk chunk
  | SseJson jsval
  | JsonBody jsval
  | CompletionBody completion
  | Raw string

text \<open>The part of Node's \<^verbatim>\<open>ServerResponse\<close> the proxy uses.\<close>

record response =
  headersSent :: bool
  writableEnded :: bool
  statusCode :: "nat option"
  headers :: "(string \<times> string) list"
  body :: "payload list"

definition new_response :: response where
  "new_response = \<lparr>headersSent = False, writableEnded = False, statusCode = None,
                     headers = [], body = []\<rparr>"

definition setHeader :: "string \<Rightarrow> string \<Rightarrow> response \<Rightarrow> response" where
  "setHeader k v res = res\<lparr>headers := AList.update k v (headers res)\<rparr>"

definition writeHead :: "nat \<Rightarrow> (string \<times> string) list \<Rightarrow> response \<Rightarrow> response" where
  "writeHead status hs res =
     res\<lparr>headersSent := True, statusCode := Some status,
         headers := fold (\<lambda>(k, v). AList.update k v) hs (headers res)\<rparr>"

text \<open>\<^verbatim>\<open>res.write\<close>: the first write sends the headers; nothing is sent once the
  response has ended.\<close>

definition res_write :: "payload list \<Rightarrow> response \<Rightarrow> response" where
  "res_write ps res =
     (if writableEnded res then res
      else res\<lparr>headersSent := True, body := body res @ ps\<rparr>)"

definition res_end :: "response \<Rightarrow> response" where
  "res_end res = res\<lparr>headersSent := True, writableEnded := True\<rparr>"

section \<open>provider.ts: the Anthropic stream translator\<close>

text \<open>
  The variables of \<^verbatim>\<open>forwardToAnthropic\<close> that live across the lines of one stream.
  \<open>ticks\<close> counts the calls of \<^verbatim>\<open>Date.now()\<close> made so far; the clock is a parameter
  \<open>clock\<close>, the value of the n-th call.
\<close>

record stream_state =
  buffer :: string
  insideThinking :: bool
  currentBlockType :: jsval
  currentToolIndex :: int
  stopReason :: jsval
  ticks :: nat

definition initial_stream_state :: stream_state where
  "initial_stream_state =
     \<lparr>buffer = [], insideThinking = False, currentBlockType = Null,
      currentToolIndex = - 1, stopReason = Null, ticks = 0\<rparr>"

definition makeChunk ::
  "(nat \<Rightarrow> nat) \<Rightarrow> string \<Rightarrow> stream_state \<Rightarrow> jsval \<Rightarrow> string option \<Rightarrow> chunk \<times> stream_state" where
  "makeChunk clock modelName st d finish =
     (\<lparr>chunk_id = ''chatcmpl-'' @ show_nat (clock (ticks st)),
       chunk_object = ''chat.completion.chunk'',
       chunk_created = clock (ticks st + 1) div 1000,
       chunk_model = ''clawrouter/'' @ modelName,
       choices = [\<lparr>choice_index = 0, delta = d, finish_reason = finish\<rparr>]\<rparr>,
      st\<lparr>ticks := ticks st + 2\<rparr>)"

text \<open>
  The body of the \<^verbatim>\<open>try\<close> for one parsed event: the new state and what was written.
  Reading \<^verbatim>\<open>event.type\<close> of \<^verbatim>\<open>null\<close> throws; the \<^verbatim>\<open>catch\<close> skips the line.
\<close>

definition handle_event ::
  "(nat \<Rightarrow> nat) \<Rightarrow> string \<Rightarrow> stream_state \<Rightarrow> jsval \<Rightarrow> stream_state \<times> payload list" where
  "handle_event clock modelName st event =
     (if nullish event then (st, [])
      else if js_get event ''type'' = Str ''content_block_start'' then
        (let block = js_get event ''content_block'' in
         if opt_get block ''type'' = Str ''thinking'' then
           (st\<lparr>insideThinking := True, currentBlockType := Str ''thinking''\<rparr>, [])
         else if opt_get block ''type'' = Str ''tool_use'' then
           (let st1 = st\<lparr>insideThinking := False, currentBlockType := Str ''tool_use'',
                          currentToolIndex := currentToolIndex st + 1\<rparr>;
                (c, st2) = makeChunk clock modelName st1
                  (Obj [(''tool_calls'', Arr [Obj
                     [(''index'', Num (of_int (currentToolIndex st1))),
                      (''id'', js_get block ''id''),
                      (''type'', Str ''function''),
                      (''function'', Obj [(''name'', js_get block ''name''),
                                          (''arguments'', Str [])])]])]) None
            in (st2, [SseChunk c]))
         else
           (st\<lparr>insideThinking := False,
               currentBlockType := nullish_or (opt_get block ''type'') (Str ''text'')\<rparr>, []))
      else if js_get event ''type'' = Str ''content_block_stop'' then
        (st\<lparr>insideThinking := False, currentBlockType := Null\<rparr>, [])
      else if js_get event ''type'' = Str ''content_block_delta'' then
        (if insideThinking st then (st, [])
         else if currentBlockType st = Str ''tool_use''
                 \<and> opt_get (js_get event ''delta'') ''type'' = Str ''input_json_delta'' then
           (let (c, st1) = makeChunk clock modelName st
                  (Obj [(''tool_calls'', Arr [Obj
                     [(''index'', Num (of_int (currentToolIndex st))),
                      (''function'', Obj [(''arguments'',
                          nullish_or (js_get (js_get event ''delta'') ''partial_json'') (Str []))])]])])
                  None
            in (st1, [SseChunk c]))
         else if truthy (opt_get (js_get event ''delta'') ''text'') then
           (let (c, st1) = makeChunk clock modelName st
                  (Obj [(''content'', opt_get (js_get event ''delta'') ''text'')]) None
            in (st1, [SseChunk c]))
         else (st, []))
      else if js_get event ''type'' = Str ''message_delta'' then
        (st\<lparr>stopReason := nullish_or (opt_get (js_get event ''delta'') ''stop_reason'') Null\<rparr>, [])
      else if js_get event ''type'' = Str ''message_stop'' then
        (let (c, st1) = makeChunk clock modelName st (Obj [])
                  (Some (if stopReason st = Str ''tool_use'' then ''tool_calls'' else ''stop''))
         in (st1, [SseChunk c]))
      else (st, []))"

text \<open>
  One line of the upstream stream. \<open>parse\<close> is \<^verbatim>\<open>JSON.parse\<close>, \<open>None\<close> where it
  throws a SyntaxError.
\<close>

definition line_event :: "(string \<Rightarrow> jsval option) \<Rightarrow> string \<Rightarrow> jsval option" where
  "line_event parse line =
     (if \<not> startsWith line ''data: '' then None
      else let jsonStr = trim (drop 6 line)
           in if jsonStr = ''[DONE]'' \<or> jsonStr = [] then None else parse jsonStr)"

definition process_line ::
  "(string \<Rightarrow> jsval option) \<Rightarrow> (nat \<Rightarrow> nat) \<Rightarrow> string \<Rightarrow> stream_state \<Rightarrow> string
     \<Rightarrow> stream_state \<times> payload list" where
  "process_line parse clock modelName st line =
     (case line_event parse line of
        None \<Rightarrow> (st, [])
      | Some event \<Rightarrow> handle_event clock modelName st event)"

text \<open>\<^verbatim>\<open>for (const line of lines)\<close>, collecting the writes in order.\<close>

fun process_lines ::
  "(string \<Rightarrow> jsval option) \<Rightarrow> (nat \<Rightarrow> nat) \<Rightarrow> string \<Rightarrow> stream_state \<Rightarrow> string list
     \<Rightarrow> stream_state \<times> payload list" where
  "process_lines parse clock modelName st [] = (st, [])"
| "process_lines parse clock modelName st (line # rest) =
     (let (st1, ws1) = process_line parse clock modelName st line;
          (st2, ws2) = process_lines parse clock modelName st1 rest
      in (st2, ws1 @ ws2))"

text \<open>
  One turn of \<^verbatim>\<open>while (true)\<close> after a successful \<^verbatim>\<open>reader.read()\<close> that delivered the
  decoded text \<open>text\<close>: the buffer grows, is split at line feeds, keeps its last
  segment, and the complete lines are processed.
\<close>

definition process_read ::
  "(string \<Rightarrow> jsval option) \<Rightarrow> (nat \<Rightarrow> nat) \<Rightarrow> string \<Rightarrow> stream_state \<Rightarrow> string
     \<Rightarrow> stream_state \<times> payload list" where
  "process_read parse clock modelName st text =
     (let lines = split_nl (buffer st @ text)
      in process_lines parse clock modelName (st\<lparr>buffer := last lines\<rparr>) (butlast lines))"

fun process_reads ::
  "(string \<Rightarrow> jsval option) \<Rightarrow> (nat \<Rightarrow> nat) \<Rightarrow> string \<Rightarrow> stream_state \<Rightarrow> string list
     \<Rightarrow> stream_state \<times> payload list" where
  "process_reads parse clock modelName st [] = (st, [])"
| "process_reads parse clock modelName st (text # rest) =
     (let (st1, ws1) = process_read parse clock modelName st text;
          (st2, ws2) = process_reads parse clock modelName st1 rest
      in (st2, ws1 @ ws2))"

section \<open>provider.ts without tool calls: the stream translator of \<open>src/provider.ts\<close>\<close>

text \<open>
  The repository holds a second \<^verbatim>\<open>provider.ts\<close> whose \<^verbatim>\<open>forwardToAnthropic\<close> knows no
  tool calls: a block start only sets or clears \<^verbatim>\<open>insideThinking\<close>, and the final
  chunk always finishes with \<^verbatim>\<open>"stop"\<close>. Its chunks are object literals with the
  fields of \<^verbatim>\<open>makeChunk\<close>.
\<close>

definition handle_event_plain ::
  "(nat \<Rightarrow> nat) \<Rightarrow> string \<Rightarrow> stream_state \<Rightarrow> jsval \<Rightarrow> stream_state \<times> payload list" where
  "handle_event_plain clock modelName st event =
     (if nullish event then (st, [])
      else if js_get event ''type'' = Str ''content_block_start'' then
        (if opt_get (js_get event ''content_block'') ''type'' = Str ''thinking''
         then (st\<lparr>insideThinking := True\<rparr>, [])
         else (st\<lparr>insideThinking := False\<rparr>, []))
      else if js_get event ''type'' = Str ''content_block_stop'' then
        (st\<lparr>insideThinking := False\<rparr>, [])
      else if js_get event ''type'' = Str ''content_block_delta'' then
        (if insideThinking st then (st, [])
         else if truthy (opt_get (js_get event ''delta'') ''text'') then
           (let (c, st1) = makeChunk clock modelName st
                  (Obj [(''content'', opt_get (js_get event ''delta'') ''text'')]) None
            in (st1, [SseChunk c]))
         else (st, []))
      else if js_get event ''type'' = Str ''message_stop'' then
        (let (c, st1) = makeChunk clock modelName st (Obj []) (Some ''stop'')
         in (st1, [SseChunk c]))
      else (st, []))"

definition process_line_plain ::
  "(string \<Rightarrow> jsval option) \<Rightarrow> (nat \<Rightarrow> nat) \<Rightarrow> string \<Rightarrow> stream_state \<Rightarrow> string
     \<Rightarrow> stream_state \<times> payload list" where
  "process_line_plain parse clock modelName st line =
     (case line_event parse line of
        None \<Rightarrow> (st, [])
      | Some event \<Rightarrow> handle_event_plain clock modelName st event)"

fun process_lines_plain ::
  "(string \<Rightarrow> jsval option) \<Rightarrow> (nat \<Rightarrow> nat) \<Rightarrow> string \<Rightarrow> stream_state \<Rightarrow> string list
     \<Rightarrow> stream_state \<times> payload list" where
  "process_lines_plain parse clock modelName st [] = (st, [])"
| "process_lines_plain parse clock modelName st (line # rest) =
     (let (st1, ws1) = process_line_plain parse clock modelName st line;
          (st2, ws2) = process_lines_plain parse clock modelName st1 rest
      in (st2, ws1 @ ws2))"

definition process_read_plain ::
  "(string \<Rightarrow> jsval option) \<Rightarrow> (nat \<Rightarrow> nat) \<Rightarrow> string \<Rightarrow> stream_state \<Rightarrow> string
     \<Rightarrow> stream_state \<times> payload list" where
  "process_read_plain parse clock modelName st text =
     (let lines = split_nl (buffer st @ text)
      in process_lines_plain parse clock modelName (st\<lparr>buffer := last lines\<rparr>) (butlast lines))"

fun process_reads_plain ::
  "(string \<Rightarrow> jsval option) \<Rightarrow> (nat \<Rightarrow> nat) \<Rightarrow> string \<Rightarrow> stream_state \<Rightarrow> string list
     \<Rightarrow> stream_state \<times> payload list" where
  "process_reads_plain parse clock modelName st [] = (st, [])"
| "process_reads_plain parse clock modelName st (text # rest) =
     (let (st1, ws1) = process_read_plain parse clock modelName st text;
          (st2, ws2) = process_reads_plain parse clock modelName st1 rest
      in (st2, ws1 @ ws2))"

section \<open>The block structure of the upstream stream\<close>

text \<open>
  What the Anthropic stream itself says about thinking blocks, independently of the
  translator's variables. The events of a stream are the JSON values of its
  \<^verbatim>\<open>data: \<close> lines, in order. A content block runs from its
  \<^verbatim>\<open>content_block_start\<close> event to the next \<^verbatim>\<open>content_block_stop\<close>; after a list of
  events the stream is inside a thinking block when the latest of these two kinds of
  event is the start of a block whose \<^verbatim>\<open>content_block.type\<close> is \<^verbatim>\<open>thinking\<close>.
\<close>

definition upstream_events :: "(string \<Rightarrow> jsval option) \<Rightarrow> string list \<Rightarrow> jsval list" where
  "upstream_events parse lines = List.map_filter (line_event parse) lines"

definition block_boundary :: "jsval \<Rightarrow> bool" where
  "block_boundary ev =
     (js_get ev ''type'' = Str ''content_block_start''
      \<or> js_get ev ''type'' = Str ''content_block_stop'')"

definition opens_thinking :: "jsval \<Rightarrow> bool" where
  "opens_thinking ev =
     (js_get ev ''type'' = Str ''content_block_start''
      \<and> opt_get (js_get ev ''content_block'') ''type'' = Str ''thinking'')"

definition inside_thinking_block :: "jsval list \<Rightarrow> bool" where
  "inside_thinking_block evs =
     (let boundaries = filter block_boundary evs
      in boundaries \<noteq> [] \<and> opens_thinking (last boundaries))"

section \<open>provider.ts: forwarding one attempt\<close>

text \<open>
  What a \<^verbatim>\<open>throw\<close> or a rejected promise carries: an \<^verbatim>\<open>Error\<close> with its message, or
  the \<^verbatim>\<open>TimeoutError\<close> that \<^verbatim>\<open>handleChatCompletions\<close> tests for.
\<close>

datatype js_error = Error string | TimeoutError string


text \<open>
  The upstream seen by one call of \<^verbatim>\<open>fetch\<close>: the promise rejects, or it resolves to
  a response with \<^verbatim>\<open>ok\<close>, \<^verbatim>\<open>status\<close>, the result of \<^verbatim>\<open>text()\<close>, the result of
  \<^verbatim>\<open>json()\<close>, and the body stream: \<open>None\<close> when \<^verbatim>\<open>response.body\<close> is missing,
  otherwise the decoded texts of the successful reads and how the stream ends
  (\<open>None\<close>: \<^verbatim>\<open>done\<close>; \<open>Some e\<close>: \<^verbatim>\<open>reader.read()\<close> rejects with \<open>e\<close>).
\<close>

datatype 'j fetch_result =
    Rejects js_error
  | Resolves (resp_ok: bool) (resp_status: nat) (resp_text: "js_error + string")
             (resp_json: "js_error + 'j") (resp_body: "(string list \<times> js_error option) option")

record provider_auth =
  auth_token :: "string option"
  auth_apiKey :: "string option"

text \<open>The parameters of an attempt that the proxy does not compute itself.\<close>

record upstream =
  getAuth :: "string \<Rightarrow> provider_auth option"
  json_parse :: "string \<Rightarrow> jsval option"
  json_stringify :: "jsval \<Rightarrow> string"
  date_now :: "nat \<Rightarrow> nat"
  fetch_anthropic :: "anthropic_message fetch_result"
  fetch_openai :: "jsval fetch_result"


text \<open>
  Property names that every object literal inherits from \<^verbatim>\<open>Object.prototype\<close>: an
  index expression \<^verbatim>\<open>obj[key]\<close> with one of these keys yields a truthy value
  although the literal does not list the key.
\<close>

definition Object_prototype_keys :: "string list" where
  "Object_prototype_keys =
     [''constructor'', ''toString'', ''toLocaleString'', ''valueOf'', ''hasOwnProperty'',
      ''isPrototypeOf'', ''propertyIsEnumerable'', ''__proto__'', ''__defineGetter__'',
      ''__defineSetter__'', ''__lookupGetter__'', ''__lookupSetter__'']"


text \<open>
  The tool calls of a non-streaming response:
  \<^verbatim>\<open>toolUseBlocks.map((b, idx) => ({ id: b.id ?? `call_${Date.now()}_${idx}`, ... }))\<close>.
  \<open>t\<close> counts the calls of \<^verbatim>\<open>Date.now()\<close>.
\<close>

fun tool_calls_of ::
  "(jsval \<Rightarrow> string) \<Rightarrow> (nat \<Rightarrow> nat) \<Rightarrow> nat \<Rightarrow> nat \<Rightarrow> content_block list \<Rightarrow> tool_call list \<times> nat" where
  "tool_calls_of stringify clock t idx [] = ([], t)"
| "tool_calls_of stringify clock t idx (b # bs) =
     (let (cid, t1) = (case block_id b of
                         Some i \<Rightarrow> (i, t)
                       | None \<Rightarrow> (''call_'' @ show_nat (clock t) @ ''_'' @ show_nat idx, t + 1));
          c = \<lparr>call_id = cid, call_type = ''function'',
               function_name = (case block_name b of Some n \<Rightarrow> n | None \<Rightarrow> []),
               function_arguments = stringify (nullish_or (block_input b) (Obj []))\<rparr>;
          (cs, t2) = tool_calls_of stringify clock t1 (idx + 1) bs
      in (c # cs, t2))"

text \<open>The non-streaming branch of \<^verbatim>\<open>forwardToAnthropic\<close>, from \<open>data\<close> to \<^verbatim>\<open>openaiResponse\<close>.\<close>

definition anthropic_to_openai ::
  "(jsval \<Rightarrow> string) \<Rightarrow> (nat \<Rightarrow> nat) \<Rightarrow> string \<Rightarrow> anthropic_message \<Rightarrow> completion" where
  "anthropic_to_openai stringify clock modelName data =
     (let textContent = concat (map (\<lambda>b. case block_text b of Some t \<Rightarrow> t | None \<Rightarrow> [])
                                    (filter (\<lambda>b. block_type b = ''text'') (msg_content data)));
          toolUseBlocks = filter (\<lambda>b. block_type b = ''tool_use'') (msg_content data);
          (toolCalls, t) = tool_calls_of stringify clock 0 0 toolUseBlocks;
          finishReason = (if msg_stop_reason data = Some ''tool_use'' then ''tool_calls''
                          else if msg_stop_reason data = Some ''end_turn'' then ''stop''
                          else (case msg_stop_reason data of Some r \<Rightarrow> r | None \<Rightarrow> ''stop''));
          message = \<lparr>cm_role = ''assistant'',
                     cm_content = (if textContent \<noteq> [] then Some textContent
                                   else if toolCalls \<noteq> [] then None else Some []),
                     cm_tool_calls = (if toolCalls \<noteq> [] then Some toolCalls else None)\<rparr>;
          inTok = (case msg_usage data of Some u \<Rightarrow> input_tokens u | None \<Rightarrow> 0);
          outTok = (case msg_usage data of Some u \<Rightarrow> output_tokens u | None \<Rightarrow> 0)
      in \<lparr>completion_id = ''chatcmpl-'' @ show_nat (clock t),
          completion_object = ''chat.completion'',
          completion_created = clock (t + 1) div 1000,
          completion_model = ''clawrouter/'' @ modelName,
          completion_choices = [\<lparr>cc_index = 0, cc_message = message, cc_finish_reason = finishReason\<rparr>],
          completion_usage = \<lparr>prompt_tokens = inTok, completion_tokens = outTok,
                               total_tokens = inTok + outTok\<rparr>\<rparr>)"

definition sse_headers :: "(string \<times> string) list" where
  "sse_headers = [(''Content-Type'', ''text/event-stream''), (''Cache-Control'', ''no-cache''),
                  (''Connection'', ''keep-alive'')]"

definition DONE :: payload where
  "DONE = Raw ''data: [DONE]\<newline>\<newline>''"

text \<open>
  \<^verbatim>\<open>forwardToAnthropic\<close> from the authentication check on. The result is the response
  object as the call leaves it and \<open>None\<close> when the promise resolves, \<open>Some e\<close> when
  it rejects with \<open>e\<close>. The request that is sent (messages, tools, thinking, headers)
  is read by the upstream only and is not part of this function's model. In the
  streaming branch the \<^verbatim>\<open>finally\<close> block writes the \<^verbatim>\<open>[DONE]\<close> line and ends the
  response whether the loop ended or threw.
\<close>

definition forwardToAnthropic ::
  "upstream \<Rightarrow> string \<Rightarrow> response \<Rightarrow> bool \<Rightarrow> response \<times> js_error option" where
  "forwardToAnthropic up modelName res stream =
     (case getAuth up ''anthropic'' of
        None \<Rightarrow> (res, Some (Error ''No Anthropic auth token''))
      | Some auth \<Rightarrow>
     (case auth_token auth of
        None \<Rightarrow> (res, Some (Error ''No Anthropic auth token''))
      | Some tok \<Rightarrow>
     if tok = [] then (res, Some (Error ''No Anthropic auth token''))
     else
     (case fetch_anthropic up of
        Rejects e \<Rightarrow> (res, Some e)
      | Resolves ok status txt js rd \<Rightarrow>
     if \<not> ok then
       (case txt of
          Inl e \<Rightarrow> (res, Some e)
        | Inr errText \<Rightarrow>
            (res, Some (Error (''Anthropic API error '' @ show_nat status @ '': '' @ errText))))
     else if \<not> stream then
       (case js of
          Inl e \<Rightarrow> (res, Some e)
        | Inr data \<Rightarrow>
            (res_end (res_write
               [CompletionBody (anthropic_to_openai (json_stringify up) (date_now up) modelName data)]
               (writeHead 200 [(''Content-Type'', ''application/json'')] res)), None))
     else
       (let res1 = writeHead 200 sse_headers res in
        case rd of
          None \<Rightarrow> (res1, Some (Error ''No response body''))
        | Some (reads, ending) \<Rightarrow>
            (let (st, ws) = process_reads (json_parse up) (date_now up) modelName
                              initial_stream_state reads
             in (res_end (res_write [DONE] (res_write ws res1)), ending))))))"

text \<open>
  The same function in \<^verbatim>\<open>src/provider.ts\<close>: no tool calls in the completion, and only
  \<^verbatim>\<open>end_turn\<close> is renamed.
\<close>

definition anthropic_to_openai_plain ::
  "(nat \<Rightarrow> nat) \<Rightarrow> string \<Rightarrow> anthropic_message \<Rightarrow> completion" where
  "anthropic_to_openai_plain clock modelName data =
     (let textContent = concat (map (\<lambda>b. case block_text b of Some t \<Rightarrow> t | None \<Rightarrow> [])
                                    (filter (\<lambda>b. block_type b = ''text'') (msg_content data)));
          inTok = (case msg_usage data of Some u \<Rightarrow> input_tokens u | None \<Rightarrow> 0);
          outTok = (case msg_usage data of Some u \<Rightarrow> output_tokens u | None \<Rightarrow> 0)
      in \<lparr>completion_id = ''chatcmpl-'' @ show_nat (clock 0),
          completion_object = ''chat.completion'',
          completion_created = clock 1 div 1000,
          completion_model = ''clawrouter/'' @ modelName,
          completion_choices =
            [\<lparr>cc_index = 0,
              cc_message = \<lparr>cm_role = ''assistant'', cm_content = Some textContent,
                             cm_tool_calls = None\<rparr>,
              cc_finish_reason = (if msg_stop_reason data = Some ''end_turn'' then ''stop''
                                  else (case msg_stop_reason data of Some r \<Rightarrow> r | None \<Rightarrow> ''stop''))\<rparr>],
          completion_usage = \<lparr>prompt_tokens = inTok, completion_tokens = outTok,
                               total_tokens = inTok + outTok\<rparr>\<rparr>)"

definition forwardToAnthropic_plain ::
  "upstream \<Rightarrow> string \<Rightarrow> response \<Rightarrow> bool \<Rightarrow> response \<times> js_error option" where
  "forwardToAnthropic_plain up modelName res stream =
     (case getAuth up ''anthropic'' of
        None \<Rightarrow> (res, Some (Error ''No Anthropic auth token''))
      | Some auth \<Rightarrow>
     (case auth_token auth of
        None \<Rightarrow> (res, Some (Error ''No Anthropic auth token''))
      | Some tok \<Rightarrow>
     if tok = [] then (res, Some (Error ''No Anthropic auth token''))
     else
     (case fetch_anthropic up of
        Rejects e \<Rightarrow> (res, Some e)
      | Resolves ok status txt js rd \<Rightarrow>
     if \<not> ok then
       (case txt of
          Inl e \<Rightarrow> (res, Some e)
        | Inr errText \<Rightarrow>
            (res, Some (Error (''Anthropic API error '' @ show_nat status @ '': '' @ errText))))
     else if \<not> stream then
       (case js of
          Inl e \<Rightarrow> (res, Some e)
        | Inr data \<Rightarrow>
            (res_end (res_write
               [CompletionBody (anthropic_to_openai_plain (date_now up) modelName data)]
               (writeHead 200 [(''Content-Type'', ''application/json'')] res)), None))
     else
       (let res1 = writeHead 200 sse_headers res in
        case rd of
          None \<Rightarrow> (res1, Some (Error ''No response body''))
        | Some (reads, ending) \<Rightarrow>
            (let (st, ws) = process_reads_plain (json_parse up) (date_now up) modelName
                              initial_stream_state reads
             in (res_end (res_write [DONE] (res_write ws res1)), ending))))))"

text \<open>\<^verbatim>\<open>obj.model = v\<close> on a value that is not nullish; only an object keeps the property.\<close>

fun set_model :: "jsval \<Rightarrow> jsval \<Rightarrow> jsval" where
  "set_model (Obj kvs) v = Obj (AList.update ''model'' v kvs)"
| "set_model w v = w"

text \<open>\<^verbatim>\<open>if (data.model) data.model = `clawrouter/${modelName}`\<close>\<close>

definition rewrite_model :: "string \<Rightarrow> jsval \<Rightarrow> jsval" where
  "rewrite_model modelName data =
     (if truthy (js_get data ''model'') then set_model data (Str (''clawrouter/'' @ modelName))
      else data)"







section \<open>provider.ts: OpenAI messages to Anthropic messages\<close>

text \<open>\<^verbatim>\<open>ChatMessage\<close>: the content is a string, \<^verbatim>\<open>null\<close> or a list of parts.\<close>

record content_part =
  part_type :: string
  part_text :: "string option"
  part_image_url :: "string option"

datatype message_content = StringContent string | NullContent | PartsContent "content_part list"

record chat_message =
  chat_role :: string
  chat_content :: message_content
  chat_tool_calls :: "tool_call list option"
  chat_tool_call_id :: "string option"
  chat_name :: "string option"

text \<open>What \<^verbatim>\<open>convertMessagesToAnthropic\<close> pushes: a text or a list of content blocks.\<close>

datatype anthropic_content = TextContent string | BlockContent "content_block list"

record anthropic_turn =
  turn_role :: string
  turn_content :: anthropic_content

text \<open>\<^verbatim>\<open>xs.join(sep)\<close>\<close>

fun join :: "string \<Rightarrow> string list \<Rightarrow> string" where
  "join sep [] = []"
| "join sep [x] = x"
| "join sep (x # y # ys) = x @ sep @ join sep (y # ys)"

text \<open>\<^verbatim>\<open>content.filter(b => b.type === "text").map(b => b.text)\<close>; \<^verbatim>\<open>join\<close> renders a
  missing text as the empty string.\<close>

definition part_texts :: "content_part list \<Rightarrow> string list" where
  "part_texts ps = map (\<lambda>b. case part_text b of Some t \<Rightarrow> t | None \<Rightarrow> [])
                       (filter (\<lambda>b. part_type b = ''text'') ps)"

text \<open>A content part as the JavaScript value that \<^verbatim>\<open>JSON.stringify\<close> is given.\<close>

definition part_json :: "content_part \<Rightarrow> jsval" where
  "part_json b =
     Obj ([(''type'', Str (part_type b))]
          @ (case part_text b of Some t \<Rightarrow> [(''text'', Str t)] | None \<Rightarrow> [])
          @ (case part_image_url b of Some u \<Rightarrow> [(''image_url'', Obj [(''url'', Str u)])]
             | None \<Rightarrow> []))"

definition empty_block :: content_block where
  "empty_block = \<lparr>block_type = [], block_text = None, block_thinking = None, block_id = None,
                   block_name = None, block_input = Undefined, block_tool_use_id = None,
                   block_content = None\<rparr>"

text \<open>
  \<^verbatim>\<open>{ type: "tool_use", id: tc.id, name: tc.function.name, input }\<close> with
  \<^verbatim>\<open>try { input = JSON.parse(tc.function.arguments); } catch { input = {}; }\<close>
\<close>

definition tool_use_block :: "(string \<Rightarrow> jsval option) \<Rightarrow> tool_call \<Rightarrow> content_block" where
  "tool_use_block parse tc =
     empty_block\<lparr>block_type := ''tool_use'', block_id := Some (call_id tc),
                 block_name := Some (function_name tc),
                 block_input := (case parse (function_arguments tc) of
                                   Some v \<Rightarrow> v | None \<Rightarrow> Obj [])\<rparr>"

text \<open>One turn of the loop of \<^verbatim>\<open>convertMessagesToAnthropic\<close> on
  \<^verbatim>\<open>(systemContent, messages)\<close>.\<close>

definition convert_message ::
  "(string \<Rightarrow> jsval option) \<Rightarrow> (jsval \<Rightarrow> string) \<Rightarrow> string \<times> anthropic_turn list \<Rightarrow> chat_message
     \<Rightarrow> string \<times> anthropic_turn list" where
  "convert_message parse stringify acc msg =
     (let (systemContent, messages) = acc in
      if chat_role msg = ''system'' \<or> chat_role msg = ''developer'' then
        (let text = (case chat_content msg of
                       StringContent t \<Rightarrow> t
                     | NullContent \<Rightarrow> []
                     | PartsContent ps \<Rightarrow> join ''\<newline>'' (part_texts ps))
         in (systemContent @ (if systemContent \<noteq> [] then ''\<newline>'' else []) @ text, messages))
      else if chat_role msg = ''tool'' then
        (let toolResult = empty_block
               \<lparr>block_type := ''tool_result'',
                block_tool_use_id := Some (case chat_tool_call_id msg of Some i \<Rightarrow> i | None \<Rightarrow> []),
                block_content := Some (case chat_content msg of
                                         StringContent t \<Rightarrow> t
                                       | NullContent \<Rightarrow> stringify (Str [])
                                       | PartsContent ps \<Rightarrow> stringify (Arr (map part_json ps)))\<rparr>
         in if messages \<noteq> [] \<and> turn_role (last messages) = ''user''
               \<and> (case turn_content (last messages) of
                      BlockContent bs \<Rightarrow> list_all (\<lambda>b. block_type b = ''tool_result'') bs
                    | TextContent t \<Rightarrow> False)
            then (systemContent,
                  butlast messages @
                  [(last messages)\<lparr>turn_content :=
                     (case turn_content (last messages) of
                        BlockContent bs \<Rightarrow> BlockContent (bs @ [toolResult])
                      | TextContent t \<Rightarrow> TextContent t)\<rparr>])
            else (systemContent,
                  messages @ [\<lparr>turn_role = ''user'', turn_content = BlockContent [toolResult]\<rparr>]))
      else if chat_role msg = ''assistant'' \<and> chat_tool_calls msg \<noteq> None
              \<and> chat_tool_calls msg \<noteq> Some [] then
        (let text = (case chat_content msg of
                       StringContent t \<Rightarrow> t
                     | NullContent \<Rightarrow> []
                     | PartsContent ps \<Rightarrow> join [] (part_texts ps));
             textBlocks = (if text \<noteq> [] then [empty_block\<lparr>block_type := ''text'', block_text := Some text\<rparr>]
                           else []);
             toolUses = map (tool_use_block parse) (case chat_tool_calls msg of Some tcs \<Rightarrow> tcs | None \<Rightarrow> [])
         in (systemContent,
             messages @ [\<lparr>turn_role = ''assistant'', turn_content = BlockContent (textBlocks @ toolUses)\<rparr>]))
      else
        (let text = (case chat_content msg of
                       StringContent t \<Rightarrow> t
                     | NullContent \<Rightarrow> []
                     | PartsContent ps \<Rightarrow> join ''\<newline>'' (part_texts ps))
         in (systemContent,
             messages @ [\<lparr>turn_role = (if chat_role msg = ''assistant'' then ''assistant'' else ''user''),
                          turn_content = TextContent text\<rparr>])))"

definition convertMessagesToAnthropic ::
  "(string \<Rightarrow> jsval option) \<Rightarrow> (jsval \<Rightarrow> string) \<Rightarrow> chat_message list
     \<Rightarrow> string \<times> anthropic_turn list" where
  "convertMessagesToAnthropic parse stringify openaiMessages =
     foldl (convert_message parse stringify) ([], []) openaiMessages"

text \<open>
  The round trip of tool calls: an assistant message that carries them is converted for
  the Anthropic request, and a response whose content is the resulting blocks is
  converted back. The result is the \<^verbatim>\<open>tool_calls\<close> of the completion's message.
\<close>

definition tool_calls_round_trip ::
  "(string \<Rightarrow> jsval option) \<Rightarrow> (jsval \<Rightarrow> string) \<Rightarrow> (nat \<Rightarrow> nat) \<Rightarrow> chat_message
     \<Rightarrow> tool_call list option" where
  "tool_calls_round_trip parse stringify clock msg =
     (case convertMessagesToAnthropic parse stringify [msg] of
        (sys, [turn]) \<Rightarrow>
          (case turn_content turn of
             BlockContent blocks \<Rightarrow>
               cm_tool_calls (cc_message (hd (completion_choices
                 (anthropic_to_openai stringify clock ''claude-sonnet-4-5''
                    \<lparr>msg_content = blocks, msg_usage = None, msg_model = ''claude-sonnet-4-5'',
                      msg_stop_reason = Some ''tool_use''\<rparr>))))
           | TextContent t \<Rightarrow> None)
      | other \<Rightarrow> None)"

section \<open>server.ts: \<open>detectModeOverride\<close>\<close>

text \<open>
  The class \<^verbatim>\<open>[a-z]\<close> under the flag \<^verbatim>\<open>i\<close> (without \<^verbatim>\<open>u\<close>): the ASCII letters of both
  cases. \<^verbatim>\<open>toLowerCase\<close> is applied to matches of this class and to ASCII patterns
  only, where it maps \<open>A..Z\<close> to \<open>a..z\<close>.
\<close>

definition is_letter :: "char \<Rightarrow> bool" where
  "is_letter c = (c \<in> set ''abcdefghijklmnopqrstuvwxyzABCDEFGHIJKLMNOPQRSTUVWXYZ'')"

definition lower_char :: "char \<Rightarrow> char" where
  "lower_char c =
     (case map_of (zip ''ABCDEFGHIJKLMNOPQRSTUVWXYZ'' ''abcdefghijklmnopqrstuvwxyz'') c of
        Some l \<Rightarrow> l | None \<Rightarrow> c)"

definition toLowerCase :: "string \<Rightarrow> string" where
  "toLowerCase s = map lower_char s"

text \<open>The class \<^verbatim>\<open>[:\s,]\<close>\<close>

definition is_sep :: "char \<Rightarrow> bool" where
  "is_sep c = (c = CHR '':'' \<or> is_space c \<or> c = CHR '','')"

text \<open>The object literal \<^verbatim>\<open>modeMap\<close>.\<close>

definition modeMap :: "(string \<times> string) list" where
  "modeMap =
     [(''simple'', ''SIMPLE''), (''basic'', ''SIMPLE''), (''cheap'', ''SIMPLE''),
      (''medium'', ''MEDIUM''), (''balanced'', ''MEDIUM''),
      (''complex'', ''COMPLEX''), (''advanced'', ''COMPLEX''),
      (''max'', ''REASONING''), (''reasoning'', ''REASONING''), (''think'', ''REASONING''),
      (''deep'', ''REASONING'')]"

text \<open>
  The value of \<^verbatim>\<open>modeMap[mode]\<close> when it is truthy: the tier of a listed word, or the
  member that the literal inherits from \<^verbatim>\<open>Object.prototype\<close> under that name (for a
  word of letters this is \<^verbatim>\<open>constructor\<close>).
\<close>

datatype mode_value = TierName string | Inherited string

definition modeMap_get :: "string \<Rightarrow> mode_value option" where
  "modeMap_get mode =
     (case map_of modeMap mode of
        Some t \<Rightarrow> Some (TierName t)
      | None \<Rightarrow> if mode \<in> set Object_prototype_keys then Some (Inherited mode) else None)"

text \<open>
  The three regular expressions, each anchored at the start. A match gives the captured
  word and the rest of the prompt after the whole match, which is
  \<^verbatim>\<open>prompt.slice(match[0].length)\<close>. The letters, the white space and the separators
  are matched greedily; since a run of one class is followed by a character outside it,
  backtracking finds no other match.
\<close>

text \<open>\<^verbatim>\<open>/^\/([a-z]+)\s+/i\<close>\<close>

definition slashMatch :: "string \<Rightarrow> (string \<times> string) option" where
  "slashMatch prompt =
     (case prompt of
        [] \<Rightarrow> None
      | c # rest \<Rightarrow>
          if c = CHR ''/'' \<and> takeWhile is_letter rest \<noteq> []
             \<and> takeWhile is_space (dropWhile is_letter rest) \<noteq> []
          then Some (takeWhile is_letter rest, dropWhile is_space (dropWhile is_letter rest))
          else None)"

text \<open>\<^verbatim>\<open>/^([a-z]+)\s+mode[:\s,]+/i\<close>\<close>

definition prefixMatch :: "string \<Rightarrow> (string \<times> string) option" where
  "prefixMatch prompt =
     (let word = takeWhile is_letter prompt;
          after_space = dropWhile is_space (dropWhile is_letter prompt);
          after_mode = drop 4 after_space
      in if word \<noteq> [] \<and> takeWhile is_space (dropWhile is_letter prompt) \<noteq> []
            \<and> toLowerCase (take 4 after_space) = ''mode''
            \<and> takeWhile is_sep after_mode \<noteq> []
         then Some (word, dropWhile is_sep after_mode)
         else None)"

text \<open>\<^verbatim>\<open>/^\[([a-z]+)\]\s*/i\<close>\<close>

definition bracketMatch :: "string \<Rightarrow> (string \<times> string) option" where
  "bracketMatch prompt =
     (case prompt of
        [] \<Rightarrow> None
      | c # rest \<Rightarrow>
          if c = CHR ''['' \<and> takeWhile is_letter rest \<noteq> []
             \<and> take 1 (dropWhile is_letter rest) = '']''
          then Some (takeWhile is_letter rest, dropWhile is_space (drop 1 (dropWhile is_letter rest)))
          else None)"

text \<open>One of the three \<^verbatim>\<open>if (match) { ... if (modeMap[mode]) return ... }\<close> blocks.\<close>

definition override_of :: "(string \<times> string) option \<Rightarrow> (mode_value \<times> string) option" where
  "override_of m =
     (case m of
        None \<Rightarrow> None
      | Some (word, rest) \<Rightarrow>
          (case modeMap_get (toLowerCase word) of
             None \<Rightarrow> None
           | Some v \<Rightarrow> Some (v, trim rest)))"

text \<open>\<^verbatim>\<open>detectModeOverride\<close>: the tier and the cleaned prompt, or \<open>None\<close> for \<^verbatim>\<open>null\<close>.\<close>

definition detectModeOverride :: "string \<Rightarrow> (mode_value \<times> string) option" where
  "detectModeOverride prompt =
     (case override_of (slashMatch prompt) of
        Some r \<Rightarrow> Some r
      | None \<Rightarrow>
     (case override_of (prefixMatch prompt) of
        Some r \<Rightarrow> Some r
      | None \<Rightarrow> override_of (bracketMatch prompt)))"

section \<open>router: types, \<open>selectModel\<close> and \<open>route\<close>\<close>

datatype tier = SIMPLE | MEDIUM | COMPLEX | REASONING

fun tier_name :: "tier \<Rightarrow> string" where
  "tier_name SIMPLE = ''SIMPLE''"
| "tier_name MEDIUM = ''MEDIUM''"
| "tier_name COMPLEX = ''COMPLEX''"
| "tier_name REASONING = ''REASONING''"

text \<open>\<^verbatim>\<open>tierRank\<close>\<close>

fun tierRank :: "tier \<Rightarrow> nat" where
  "tierRank SIMPLE = 0"
| "tierRank MEDIUM = 1"
| "tierRank COMPLEX = 2"
| "tierRank REASONING = 3"

text \<open>\<^verbatim>\<open>ScoringResult\<close>, \<^verbatim>\<open>TierConfig\<close>, \<^verbatim>\<open>OverridesConfig\<close>, \<^verbatim>\<open>ModelPricing\<close>,
  \<^verbatim>\<open>RoutingDecision\<close>. Numbers that are not counts are reals.\<close>

record scoring_result =
  score :: real
  result_tier :: "tier option"
  result_confidence :: real
  signals :: "string list"
  agenticScore :: "real option"

record tier_config =
  primary :: string
  fallback :: "string list"

record overrides_config =
  maxTokensForceComplex :: nat
  structuredOutputMinTier :: tier
  ambiguousDefaultTier :: tier
  agenticMode :: "bool option"

text \<open>
  The fields of \<^verbatim>\<open>RoutingConfig\<close> that \<^verbatim>\<open>route\<close> reads itself. \<^verbatim>\<open>config.scoring\<close> is
  only handed to \<^verbatim>\<open>classifyByRules\<close>, whose file is not among the sources: the
  classifier, with its scoring configuration, is the parameter \<open>classify\<close> of
  \<^verbatim>\<open>route\<close>, called with the prompt, the system prompt and the token estimate.
\<close>

record routing_config =
  tiers :: "tier \<Rightarrow> tier_config"
  agenticTiers :: "(tier \<Rightarrow> tier_config) option"
  overrides :: overrides_config

record model_pricing =
  inputPrice :: real
  outputPrice :: real

record routing_decision =
  decision_model :: string
  decision_tier :: tier
  decision_confidence :: real
  decision_method :: string
  decision_reasoning :: string
  costEstimate :: real
  baselineCost :: real
  savings :: real

text \<open>\<^verbatim>\<open>selectModel\<close>\<close>

definition selectModel ::
  "tier \<Rightarrow> real \<Rightarrow> string \<Rightarrow> string \<Rightarrow> (tier \<Rightarrow> tier_config) \<Rightarrow> (string \<Rightarrow> model_pricing option)
     \<Rightarrow> nat \<Rightarrow> nat \<Rightarrow> routing_decision" where
  "selectModel t conf method reasoning tierConfigs modelPricing estimatedInputTokens maxOutputTokens =
     (let model = primary (tierConfigs t);
          pricing = modelPricing model;
          inPrice = (case pricing of Some p \<Rightarrow> inputPrice p | None \<Rightarrow> 0);
          outPrice = (case pricing of Some p \<Rightarrow> outputPrice p | None \<Rightarrow> 0);
          cost = (real estimatedInputTokens / 1000000) * inPrice
                 + (real maxOutputTokens / 1000000) * outPrice;
          opusPricing = modelPricing ''anthropic/claude-opus-4-6'';
          opusInputPrice = (case opusPricing of Some p \<Rightarrow> inputPrice p | None \<Rightarrow> 15);
          opusOutputPrice = (case opusPricing of Some p \<Rightarrow> outputPrice p | None \<Rightarrow> 75);
          baseline = (real estimatedInputTokens / 1000000) * opusInputPrice
                     + (real maxOutputTokens / 1000000) * opusOutputPrice
      in \<lparr>decision_model = model, decision_tier = t, decision_confidence = conf,
          decision_method = method, decision_reasoning = reasoning,
          costEstimate = cost, baselineCost = baseline,
          savings = (if baseline > 0 then max 0 ((baseline - cost) / baseline) else 0)\<rparr>)"

text \<open>\<^verbatim>\<open>/json|structured|schema/i.test(s)\<close>: one of the three words occurs in \<open>s\<close>,
  letters compared without regard to case.\<close>

fun contains_word :: "string \<Rightarrow> string \<Rightarrow> bool" where
  "contains_word pat [] = (pat = [])"
| "contains_word pat (c # cs) = (startsWith (c # cs) pat \<or> contains_word pat cs)"

definition structured_output_regex :: "string \<Rightarrow> bool" where
  "structured_output_regex s =
     (contains_word ''json'' (toLowerCase s) \<or> contains_word ''structured'' (toLowerCase s)
      \<or> contains_word ''schema'' (toLowerCase s))"

text \<open>\<^verbatim>\<open>Math.ceil(s.length / 4)\<close>\<close>

definition estimate_tokens :: "string \<Rightarrow> nat" where
  "estimate_tokens s = (length s + 3) div 4"

text \<open>
  \<^verbatim>\<open>route\<close> of \<^verbatim>\<open>src/router/index.ts\<close>. \<open>toFixed2\<close> is \<^verbatim>\<open>Number.prototype.toFixed(2)\<close>.
  The structured-output test reads the system prompt:
  \<^verbatim>\<open>systemPrompt ? /json|structured|schema/i.test(systemPrompt) : false\<close>.
\<close>

definition route ::
  "(string \<Rightarrow> string option \<Rightarrow> nat \<Rightarrow> scoring_result) \<Rightarrow> (real \<Rightarrow> string) \<Rightarrow> routing_config
     \<Rightarrow> (string \<Rightarrow> model_pricing option) \<Rightarrow> string \<Rightarrow> string option \<Rightarrow> nat \<Rightarrow> routing_decision" where
  "route classify toFixed2 config modelPricing prompt systemPrompt maxOutputTokens =
     (let fullText = (case systemPrompt of Some sp \<Rightarrow> sp | None \<Rightarrow> []) @ '' '' @ prompt;
          estimatedTokens = estimate_tokens fullText;
          ruleResult = classify prompt systemPrompt estimatedTokens;
          agentic = (case agenticScore ruleResult of Some a \<Rightarrow> a | None \<Rightarrow> 0);
          isAutoAgentic = (agentic \<ge> 0.69);
          isExplicitAgentic = (case agenticMode (overrides config) of Some b \<Rightarrow> b | None \<Rightarrow> False);
          useAgenticTiers = ((isAutoAgentic \<or> isExplicitAgentic) \<and> agenticTiers config \<noteq> None);
          tierConfigs = (case agenticTiers config of
                           Some atc \<Rightarrow> if useAgenticTiers then atc else tiers config
                         | None \<Rightarrow> tiers config)
      in if estimatedTokens > maxTokensForceComplex (overrides config) then
           selectModel COMPLEX 0.95 ''rules''
             (''Input exceeds '' @ show_nat (maxTokensForceComplex (overrides config)) @ '' tokens''
                @ (if useAgenticTiers then '' | agentic'' else []))
             tierConfigs modelPricing estimatedTokens maxOutputTokens
         else
           (let hasStructuredOutput = (case systemPrompt of
                                         Some sp \<Rightarrow> sp \<noteq> [] \<and> structured_output_regex sp
                                       | None \<Rightarrow> False);
                reasoning0 = ''score='' @ toFixed2 (score ruleResult) @ '' | ''
                               @ join '', '' (signals ruleResult);
                (t1, conf, reasoning1) =
                  (case result_tier ruleResult of
                     Some t \<Rightarrow> (t, result_confidence ruleResult, reasoning0)
                   | None \<Rightarrow> (ambiguousDefaultTier (overrides config), 0.5,
                               reasoning0 @ '' | ambiguous -> default: ''
                                 @ tier_name (ambiguousDefaultTier (overrides config))));
                minTier = structuredOutputMinTier (overrides config);
                (t2, reasoning2) =
                  (if hasStructuredOutput \<and> tierRank t1 < tierRank minTier
                   then (minTier, reasoning1 @ '' | upgraded to '' @ tier_name minTier
                                    @ '' (structured output)'')
                   else (t1, reasoning1));
                reasoning3 = (if isAutoAgentic then reasoning2 @ '' | auto-agentic''
                              else if isExplicitAgentic then reasoning2 @ '' | agentic''
                              else reasoning2)
            in selectModel t2 conf ''rules'' reasoning3 tierConfigs modelPricing
                 estimatedTokens maxOutputTokens))"

text \<open>
  \<^verbatim>\<open>route\<close> of the second copy of \<^verbatim>\<open>router/index.ts\<close> in the repository. It counts
  the tokens of the user prompt for the classifier and those of both prompts for the
  context limit, and its structured-output test reads the user prompt:
  \<^verbatim>\<open>/json|structured|schema/i.test(prompt)\<close>.
\<close>

definition route_revised ::
  "(string \<Rightarrow> string option \<Rightarrow> nat \<Rightarrow> scoring_result) \<Rightarrow> (real \<Rightarrow> string) \<Rightarrow> routing_config
     \<Rightarrow> (string \<Rightarrow> model_pricing option) \<Rightarrow> string \<Rightarrow> string option \<Rightarrow> nat \<Rightarrow> routing_decision" where
  "route_revised classify toFixed2 config modelPricing prompt systemPrompt maxOutputTokens =
     (let estimatedUserTokens = estimate_tokens prompt;
          estimatedTotalTokens =
            estimate_tokens ((case systemPrompt of Some sp \<Rightarrow> sp | None \<Rightarrow> []) @ '' '' @ prompt);
          ruleResult = classify prompt systemPrompt estimatedUserTokens;
          agentic = (case agenticScore ruleResult of Some a \<Rightarrow> a | None \<Rightarrow> 0);
          isAutoAgentic = (agentic \<ge> 0.69);
          isExplicitAgentic = (case agenticMode (overrides config) of Some b \<Rightarrow> b | None \<Rightarrow> False);
          useAgenticTiers = ((isAutoAgentic \<or> isExplicitAgentic) \<and> agenticTiers config \<noteq> None);
          tierConfigs = (case agenticTiers config of
                           Some atc \<Rightarrow> if useAgenticTiers then atc else tiers config
                         | None \<Rightarrow> tiers config)
      in if estimatedTotalTokens > maxTokensForceComplex (overrides config) then
           selectModel COMPLEX 0.95 ''rules''
             (''Input exceeds '' @ show_nat (maxTokensForceComplex (overrides config)) @ '' tokens''
                @ (if useAgenticTiers then '' | agentic'' else []))
             tierConfigs modelPricing estimatedTotalTokens maxOutputTokens
         else
           (let hasStructuredOutput = structured_output_regex prompt;
                reasoning0 = ''score='' @ toFixed2 (score ruleResult) @ '' | ''
                               @ join '', '' (signals ruleResult);
                (t1, conf, reasoning1) =
                  (case result_tier ruleResult of
                     Some t \<Rightarrow> (t, result_confidence ruleResult, reasoning0)
                   | None \<Rightarrow> (ambiguousDefaultTier (overrides config), 0.5,
                               reasoning0 @ '' | ambiguous -> default: ''
                                 @ tier_name (ambiguousDefaultTier (overrides config))));
                minTier = structuredOutputMinTier (overrides config);
                (t2, reasoning2) =
                  (if hasStructuredOutput \<and> tierRank t1 < tierRank minTier
                   then (minTier, reasoning1 @ '' | upgraded to '' @ tier_name minTier
                                    @ '' (structured output)'')
                   else (t1, reasoning1));
                reasoning3 = (if isAutoAgentic then reasoning2 @ '' | auto-agentic''
                              else if isExplicitAgentic then reasoning2 @ '' | agentic''
                              else reasoning2)
            in selectModel t2 conf ''rules'' reasoning3 tierConfigs modelPricing
                 estimatedTotalTokens maxOutputTokens))"

text \<open>\<^verbatim>\<open>DEFAULT_ROUTING_CONFIG\<close>: its tiers and its overrides.\<close>

fun default_tiers :: "tier \<Rightarrow> tier_config" where
  "default_tiers SIMPLE = \<lparr>primary = ''kimi-coding/kimi-for-coding'', fallback = [''anthropic/claude-haiku-4-5'']\<rparr>"
| "default_tiers MEDIUM = \<lparr>primary = ''anthropic/claude-sonnet-4-5'', fallback = [''anthropic/claude-opus-4-6'']\<rparr>"
| "default_tiers COMPLEX = \<lparr>primary = ''anthropic/claude-opus-4-6'', fallback = [''anthropic/claude-haiku-4-5'']\<rparr>"
| "default_tiers REASONING = \<lparr>primary = ''anthropic/claude-opus-4-6'', fallback = [''anthropic/claude-haiku-4-5'']\<rparr>"

definition DEFAULT_ROUTING_CONFIG :: routing_config where
  "DEFAULT_ROUTING_CONFIG =
     \<lparr>tiers = default_tiers, agenticTiers = Some default_tiers,
      overrides = \<lparr>maxTokensForceComplex = 100000, structuredOutputMinTier = MEDIUM,
                   ambiguousDefaultTier = MEDIUM, agenticMode = Some False\<rparr>\<rparr>"

section \<open>config.ts: loading and reloading the configuration\<close>

text \<open>
  \<^verbatim>\<open>Object.keys(v)\<close> with the values \<^verbatim>\<open>v[key]\<close>, for a value that \<^verbatim>\<open>JSON.parse\<close> may
  return: the properties of an object, the indices of an array or of a string, nothing
  for a number or a boolean; \<open>None\<close> where \<^verbatim>\<open>Object.keys\<close> throws a TypeError.
\<close>

fun own_entries :: "jsval \<Rightarrow> (string \<times> jsval) list option" where
  "own_entries (Obj kvs) = Some kvs"
| "own_entries (Arr xs) = Some (zip (map show_nat [0..<length xs]) xs)"
| "own_entries (Str s) = Some (zip (map show_nat [0..<length s]) (map (\<lambda>c. Str [c]) s))"
| "own_entries (Num n) = Some []"
| "own_entries (Bool b) = Some []"
| "own_entries Null = None"
| "own_entries Undefined = None"

text \<open>
  \<^verbatim>\<open>deepMerge(target, source)\<close> on the properties of its arguments. \<open>merge_into\<close> is the
  \<^verbatim>\<open>for\<close> loop over the keys of the source with \<^verbatim>\<open>result\<close> as it grows; a source value
  and a target value that are both objects (not arrays, not \<^verbatim>\<open>null\<close>) are merged, any
  other source value replaces. An assignment to the key \<^verbatim>\<open>__proto__\<close> creates no
  property.
\<close>

fun merge_into ::
  "(string \<times> jsval) list \<Rightarrow> (string \<times> jsval) list \<Rightarrow> (string \<times> jsval) list
     \<Rightarrow> (string \<times> jsval) list" where
  "merge_into target result [] = result"
| "merge_into target result ((key, Obj s) # rest) =
     merge_into target
       (if key = ''__proto__'' then result
        else AList.update key
               (case map_of target key of
                  Some (Obj t) \<Rightarrow> Obj (merge_into t t s)
                | other \<Rightarrow> Obj s) result)
       rest"
| "merge_into target result ((key, sv) # rest) =
     merge_into target (if key = ''__proto__'' then result else AList.update key sv result) rest"

definition deepMerge :: "(string \<times> jsval) list \<Rightarrow> (string \<times> jsval) list \<Rightarrow> (string \<times> jsval) list" where
  "deepMerge target source = merge_into target target source"

text \<open>\<^verbatim>\<open>DEFAULT_CONFIG\<close>\<close>

definition default_tier_table :: jsval where
  "default_tier_table =
     Obj [(''SIMPLE'', Obj [(''primary'', Str ''kimi-coding/kimi-for-coding''),
                            (''fallback'', Arr [Str ''anthropic/claude-haiku-4-5''])]),
          (''MEDIUM'', Obj [(''primary'', Str ''anthropic/claude-sonnet-4-5''),
                            (''fallback'', Arr [Str ''anthropic/claude-opus-4-6''])]),
          (''COMPLEX'', Obj [(''primary'', Str ''anthropic/claude-opus-4-6''),
                             (''fallback'', Arr [Str ''anthropic/claude-haiku-4-5''])]),
          (''REASONING'', Obj [(''primary'', Str ''anthropic/claude-opus-4-6''),
                               (''fallback'', Arr [Str ''anthropic/claude-haiku-4-5''])])]"

definition DEFAULT_CONFIG :: "(string \<times> jsval) list" where
  "DEFAULT_CONFIG =
     [(''port'', Num 18800),
      (''host'', Str ''127.0.0.1''),
      (''providers'',
         Obj [(''anthropic'', Obj [(''baseUrl'', Str ''https://api.anthropic.com''),
                                   (''api'', Str ''anthropic'')]),
              (''kimi-coding'', Obj [(''baseUrl'', Str ''https://api.kimi.com/coding/v1''),
                                     (''api'', Str ''openai''),
                                     (''headers'', Obj [(''User-Agent'', Str ''KimiCLI/0.77'')])])]),
      (''tiers'', default_tier_table),
      (''agenticTiers'', default_tier_table),
      (''thinking'',
         Obj [(''adaptive'', Arr [Str ''claude-opus-4-6'', Str ''claude-opus-4.6'']),
              (''enabled'', Obj [(''models'', Arr [Str ''claude-sonnet-4-5'']),
                                 (''budget'', Num 4096)])]),
      (''auth'',
         Obj [(''default'', Str ''openclaw''),
              (''openclaw'', Obj [(''type'', Str ''openclaw''),
                                  (''profilesPath'',
                                   Str ''~/.openclaw/agents/main/agent/auth-profiles.json'')])])]"

text \<open>
  The module variables \<^verbatim>\<open>_config\<close> and \<^verbatim>\<open>_configPath\<close>, and what the file system
  answers: the path \<^verbatim>\<open>findConfigFile()\<close> returns, and what \<^verbatim>\<open>readFileSync\<close> followed by
  \<^verbatim>\<open>JSON.parse\<close> gives for it.
\<close>

record config_state =
  active_config :: "jsval option"
  configPath :: "string option"

datatype file_result = ReadFails | ParseFails | Parsed jsval

record config_files =
  found_path :: "string option"
  file_content :: file_result

text \<open>The \<^verbatim>\<open>catch\<close> block of \<^verbatim>\<open>loadConfig\<close>, which is also what it does without a file.\<close>

definition use_defaults :: "config_state \<Rightarrow> config_state" where
  "use_defaults st = st\<lparr>active_config := Some (Obj DEFAULT_CONFIG), configPath := None\<rparr>"

text \<open>
  \<^verbatim>\<open>loadConfig\<close>. Inside the \<^verbatim>\<open>try\<close>, after the merge, the log lines call
  \<^verbatim>\<open>Object.keys\<close> on \<^verbatim>\<open>_config.providers\<close> and \<^verbatim>\<open>_config.tiers\<close>, which throws if the
  file has set one of them to \<^verbatim>\<open>null\<close>.
\<close>

definition loadConfig :: "config_files \<Rightarrow> config_state \<Rightarrow> config_state" where
  "loadConfig files st =
     (case found_path files of
        None \<Rightarrow> use_defaults st
      | Some path \<Rightarrow>
          (case file_content files of
             ReadFails \<Rightarrow> use_defaults st
           | ParseFails \<Rightarrow> use_defaults st
           | Parsed fileConfig \<Rightarrow>
               (case own_entries fileConfig of
                  None \<Rightarrow> use_defaults st
                | Some source \<Rightarrow>
                    (let merged = Obj (deepMerge DEFAULT_CONFIG source) in
                     if own_entries (js_get merged ''providers'') = None
                        \<or> own_entries (js_get merged ''tiers'') = None
                     then use_defaults st
                     else st\<lparr>active_config := Some merged, configPath := Some path\<rparr>))))"

text \<open>\<^verbatim>\<open>reloadConfig\<close>\<close>

definition reloadConfig :: "config_files \<Rightarrow> config_state \<Rightarrow> config_state" where
  "reloadConfig files st = loadConfig files (st\<lparr>active_config := None\<rparr>)"

text \<open>\<^verbatim>\<open>getConfig\<close>: the state after the call and the configuration it returns.\<close>

definition getConfig :: "config_files \<Rightarrow> config_state \<Rightarrow> config_state \<times> jsval" where
  "getConfig files st =
     (case active_config st of
        Some c \<Rightarrow> (st, c)
      | None \<Rightarrow> (let st' = loadConfig files st
                 in (st', case active_config st' of Some c \<Rightarrow> c | None \<Rightarrow> Obj DEFAULT_CONFIG)))"

text \<open>
  A reload fails when there is a file and reading it, parsing it, merging it or the
  log lines after the merge throw.
\<close>

definition reload_fails :: "config_files \<Rightarrow> bool" where
  "reload_fails files =
     (found_path files \<noteq> None \<and>
      (case file_content files of
         ReadFails \<Rightarrow> True
       | ParseFails \<Rightarrow> True
       | Parsed fileConfig \<Rightarrow>
           (case own_entries fileConfig of
              None \<Rightarrow> True
            | Some source \<Rightarrow>
                own_entries (js_get (Obj (deepMerge DEFAULT_CONFIG source)) ''providers'') = None
                \<or> own_entries (js_get (Obj (deepMerge DEFAULT_CONFIG source)) ''tiers'') = None)))"

section \<open>server.ts: the fallback loop of \<open>handleChatCompletions\<close>\<close>

text \<open>\<^verbatim>\<open>sendError\<close>\<close>

definition sendError :: "response \<Rightarrow> nat \<Rightarrow> string \<Rightarrow> string \<Rightarrow> response" where
  "sendError res status message type =
     res_end (res_write
       [JsonBody (Obj [(''error'', Obj [(''message'', Str message), (''type'', Str type),
                                        (''code'', Num (of_nat status))])])]
       (writeHead status [(''Content-Type'', ''application/json'')] res))"

text \<open>
  The variables the loop changes: the response, \<^verbatim>\<open>lastError\<close>, the counters
  \<^verbatim>\<open>stats.timeouts\<close> and \<^verbatim>\<open>stats.errors\<close>, and a record of the calls of
  \<^verbatim>\<open>forwardRequest\<close> that were made: the model, the response as the call left it
  and the error it threw, if any.
\<close>

record handler_state =
  st_res :: response
  lastError :: string
  timeouts :: nat
  errors :: nat
  attempts :: "(string \<times> response \<times> js_error option) list"



text \<open>The statements after the loop, reached when no attempt returned.\<close>

definition after_loop :: "handler_state \<Rightarrow> handler_state" where
  "after_loop st =
     (let st1 = st\<lparr>errors := errors st + 1\<rparr> in
      if \<not> headersSent (st_res st1) then
        st1\<lparr>st_res := sendError (st_res st1) 502 (''Backend error: '' @ lastError st1) ''upstream_error''\<rparr>
      else if \<not> writableEnded (st_res st1) then
        st1\<lparr>st_res := res_end (res_write [DONE]
                 (res_write [SseJson (Obj [(''error'', Obj [(''message'', Str (lastError st1))])])]
                    (st_res st1)))\<rparr>
      else st1)"

text \<open>
  \<^verbatim>\<open>modelsToTry\<close>: the routed model, then the fallbacks of the tier that differ from it.
  \<open>fallbacks\<close> is \<^verbatim>\<open>tierConfig?.fallback\<close> of the routing configuration, \<open>None\<close> when
  the tier has no entry.
\<close>

definition modelsToTry :: "string \<Rightarrow> string \<Rightarrow> string list option \<Rightarrow> string list" where
  "modelsToTry routedModel tier fallbacks =
     (if tier \<noteq> ''EXPLICIT'' then
        (case fallbacks of
           Some fbs \<Rightarrow> routedModel # filter (\<lambda>fb. fb \<noteq> routedModel) fbs
         | None \<Rightarrow> [routedModel])
      else [routedModel])"


text \<open>
  \<^verbatim>\<open>handleReloadConfig\<close> of the server: the reload, then the answer, which is always
  a 200 with the path, the provider names and the tier names of the configuration now
  active. (\<^verbatim>\<open>reloadAuth()\<close> clears the credential cache, which is not part of this
  state.)
\<close>

definition handleReloadConfig ::
  "config_files \<Rightarrow> config_state \<Rightarrow> response \<Rightarrow> config_state \<times> response" where
  "handleReloadConfig files st r =
     (let st1 = reloadConfig files st;
          (st2, cfg) = getConfig files st1;
          keys = (\<lambda>v. case own_entries v of Some es \<Rightarrow> Arr (map (\<lambda>(k, w). Str k) es) | None \<Rightarrow> Arr [])
      in (st2,
          res_end (res_write
            [JsonBody (Obj [(''status'', Str ''reloaded''),
                            (''configPath'', case configPath st2 of Some p \<Rightarrow> Str p | None \<Rightarrow> Null),
                            (''providers'', keys (js_get cfg ''providers'')),
                            (''tiers'', keys (js_get cfg ''tiers''))])]
            (writeHead 200 [(''Content-Type'', ''application/json'')] r))))"




section \<open>Sample inputs\<close>

text \<open>
  \<^verbatim>\<open>JSON.parse\<close> and \<^verbatim>\<open>JSON.stringify\<close> are parameters of the model. The examples
  instantiate them with the values the two built-ins have on the texts the examples use.
\<close>

definition sample_json :: "(string \<times> jsval) list" where
  "sample_json =
     [(''{\"type\":\"content_block_start\",\"content_block\":{\"type\":\"thinking\"}}'',
        Obj [(''type'', Str ''content_block_start''),
             (''content_block'', Obj [(''type'', Str ''thinking'')])]),
      (''{\"type\":\"content_block_delta\",\"delta\":{\"type\":\"text_delta\",\"text\":\"secret\"}}'',
        Obj [(''type'', Str ''content_block_delta''),
             (''delta'', Obj [(''type'', Str ''text_delta''), (''text'', Str ''secret'')])]),
      (''{\"type\":\"content_block_stop\"}'',
        Obj [(''type'', Str ''content_block_stop'')]),
      (''{\"type\":\"content_block_delta\",\"delta\":{\"type\":\"text_delta\",\"text\":\"Hi\"}}'',
        Obj [(''type'', Str ''content_block_delta''),
             (''delta'', Obj [(''type'', Str ''text_delta''), (''text'', Str ''Hi'')])]),
      (''{\"type\":\"message_stop\"}'',
        Obj [(''type'', Str ''message_stop'')]),
      (''null'', Null),
      (''{}'', Obj []),
      (''{\"city\":\"Paris\"}'', Obj [(''city'', Str ''Paris'')]),
      (''{\"id\":\"c1\",\"model\":\"kimi-for-coding\"}'',
        Obj [(''id'', Str ''c1''), (''model'', Str ''kimi-for-coding'')]),
      (''{\"id\":\"c2\",\"model\":\"kimi-for-coding\"}'',
        Obj [(''id'', Str ''c2''), (''model'', Str ''kimi-for-coding'')])]"

definition JSON_parse_sample :: "string \<Rightarrow> jsval option" where
  "JSON_parse_sample = map_of sample_json"

definition JSON_stringify_sample :: "jsval \<Rightarrow> string" where
  "JSON_stringify_sample v =
     (case find (\<lambda>(s, w). w = v) sample_json of Some (s, w) \<Rightarrow> s | None \<Rightarrow> ''null'')"

definition sample_stream :: "string list" where
  "sample_stream =
     [''event: content_block_start\<newline>data: {\"type\":\"content_block_start\",\"content_block\":{\"type\":\"thinking\"}}\<newline>\<newline>da'',
      ''ta: {\"type\":\"content_block_delta\",\"delta\":{\"type\":\"text_delta\",\"text\":\"secret\"}}\<newline>\<newline>'',
      ''data: {\"type\":\"content_block_stop\"}\<newline>\<newline>data: {\"type\":\"content_block_delta\",\"delta\":{\"type\":\"text_delta\",\"text\":\"Hi\"}}\<newline>\<newline>data: {\"type\":\"message_stop\"}\<newline>\<newline>'']"

definition sample_upstream :: upstream where
  "sample_upstream =
     \<lparr>getAuth = (\<lambda>p. Some \<lparr>auth_token = Some ''sk-ant-api03-key'', auth_apiKey = Some ''sk-key''\<rparr>),
      json_parse = JSON_parse_sample,
      json_stringify = JSON_stringify_sample,
      date_now = (\<lambda>n. 5000 + n),
      fetch_anthropic = Resolves True 200 (Inr []) (Inl (Error ''not json'')) (Some (sample_stream, None)),
      fetch_openai = Rejects (Error ''fetch failed'')\<rparr>"

definition sample_stream_without_delta :: "string list" where
  "sample_stream_without_delta =
     [''event: content_block_start\<newline>data: {\"type\":\"content_block_start\",\"content_block\":{\"type\":\"thinking\"}}\<newline>\<newline>'',
      ''\<newline>data: {\"type\":\"content_block_stop\"}\<newline>\<newline>data: {\"type\":\"content_block_delta\",\"delta\":{\"type\":\"text_delta\",\"text\":\"Hi\"}}\<newline>\<newline>data: {\"type\":\"message_stop\"}\<newline>\<newline>'']"








definition weather_call :: chat_message where
  "weather_call = \<lparr>chat_role = ''assistant'', chat_content = StringContent ''Let me check.'',
     chat_tool_calls = Some [\<lparr>call_id = ''call_1'', call_type = ''function'',
        function_name = ''get_weather'', function_arguments = ''{\"city\":\"Paris\"}''\<rparr>],
     chat_tool_call_id = None, chat_name = None\<rparr>"

definition null_call :: chat_message where
  "null_call = \<lparr>chat_role = ''assistant'', chat_content = NullContent,
     chat_tool_calls = Some [\<lparr>call_id = ''call_1'', call_type = ''function'',
        function_name = ''ping'', function_arguments = ''null''\<rparr>],
     chat_tool_call_id = None, chat_name = None\<rparr>"

definition simple_classifier :: "string \<Rightarrow> string option \<Rightarrow> nat \<Rightarrow> scoring_result" where
  "simple_classifier p sp n =
     \<lparr>score = - 0.1, result_tier = Some SIMPLE, result_confidence = 0.9,
      signals = [''short''], agenticScore = Some 0\<rparr>"

definition custom_files :: config_files where
  "custom_files = \<lparr>found_path = Some ''./freerouter.config.json'',
     file_content = Parsed (Obj [(''port'', Num 9000)])\<rparr>"

definition broken_files :: config_files where
  "broken_files = \<lparr>found_path = Some ''./freerouter.config.json'', file_content = ParseFails\<rparr>"

definition unloaded :: config_state where
  "unloaded = \<lparr>active_config = None, configPath = None\<rparr>"

section \<open>Auxiliary facts\<close>

subsection \<open>Splitting the upstream text into lines\<close>


lemma split_nl_nonempty [simp]: "split_nl s \<noteq> []"
  by (induction s) (auto split: list.splits)

lemma split_nl_append:
  "split_nl (a @ b) = butlast (split_nl a) @ split_nl (last (split_nl a) @ b)"
proof (induction a)
  case Nil
  show ?case by simp
next
  case (Cons c a)
  show ?case
  proof (cases "c = CHR 0x0A")
    case True
    with Cons show ?thesis by simp
  next
    case False
    obtain l ls where sa: "split_nl a = l # ls"
      using split_nl_nonempty [of a] by (cases "split_nl a") auto
    obtain l2 ls2 where sab: "split_nl (a @ b) = l2 # ls2"
      using split_nl_nonempty [of "a @ b"] by (cases "split_nl (a @ b)") auto
    show ?thesis
    proof (cases ls)
      case Nil
      with sa sab Cons False show ?thesis
        by (cases "split_nl (l @ b)") auto
    next
      case (Cons l' ls')
      with sa sab Cons.IH False show ?thesis by auto
    qed
  qed
qed

lemma handle_event_buffer:
  "handle_event clock m (st\<lparr>buffer := b\<rparr>) ev =
     (let (st', ws) = handle_event clock m st ev in (st'\<lparr>buffer := b\<rparr>, ws))"
  by (simp add: handle_event_def makeChunk_def Let_def)

lemma process_line_buffer:
  "process_line parse clock m (st\<lparr>buffer := b\<rparr>) l =
     (let (st', ws) = process_line parse clock m st l in (st'\<lparr>buffer := b\<rparr>, ws))"
  by (simp add: process_line_def handle_event_buffer split: option.splits)

lemma process_lines_buffer:
  "process_lines parse clock m (st\<lparr>buffer := b\<rparr>) ls =
     (let (st', ws) = process_lines parse clock m st ls in (st'\<lparr>buffer := b\<rparr>, ws))"
proof (induction ls arbitrary: st)
  case Nil
  show ?case by simp
next
  case (Cons l ls)
  show ?case
    by (simp add: process_line_buffer Cons.IH Let_def split: prod.splits)
qed

lemma process_lines_append:
  "process_lines parse clock m st (xs @ ys) =
     (let (st1, ws1) = process_lines parse clock m st xs;
          (st2, ws2) = process_lines parse clock m st1 ys
      in (st2, ws1 @ ws2))"
  by (induction xs arbitrary: st) (auto simp: Let_def split: prod.splits)

lemma handle_event_keeps_buffer:
  "handle_event clock m st ev = (st', ws) \<Longrightarrow> buffer st' = buffer st"
  by (auto simp: handle_event_def makeChunk_def Let_def split: if_splits)

lemma process_lines_keeps_buffer:
  "process_lines parse clock m st ls = (st', ws) \<Longrightarrow> buffer st' = buffer st"
proof (induction ls arbitrary: st st' ws)
  case Nil
  then show ?case by simp
next
  case (Cons l ls)
  then show ?case
    by (auto simp: Let_def process_line_def split: prod.splits option.splits
             dest!: handle_event_keeps_buffer)
qed

lemma split_nl_no_newline: "CHR 0x0A \<notin> set s \<Longrightarrow> split_nl s = [s]"
  by (induction s) auto

lemma last_split_nl_no_newline: "CHR 0x0A \<notin> set (last (split_nl s))"
  by (induction s) (auto split: list.splits)

lemma process_reads_lines:
  assumes "CHR 0x0A \<notin> set (buffer st)"
  shows "process_reads parse clock m st reads =
     process_lines parse clock m (st\<lparr>buffer := last (split_nl (buffer st @ concat reads))\<rparr>)
        (butlast (split_nl (buffer st @ concat reads)))"
  using assms
proof (induction reads arbitrary: st)
  case Nil
  then show ?case by (simp add: split_nl_no_newline)
next
  case (Cons r rs)
  define L where "L = split_nl (buffer st @ r)"
  obtain st1 ws1 where p1: "process_lines parse clock m (st\<lparr>buffer := last L\<rparr>) (butlast L) = (st1, ws1)"
    by (cases "process_lines parse clock m (st\<lparr>buffer := last L\<rparr>) (butlast L)") auto
  have b1: "buffer st1 = last L"
    using process_lines_keeps_buffer [OF p1] by simp
  have nn: "CHR 0x0A \<notin> set (buffer st1)"
    unfolding b1 L_def by (rule last_split_nl_no_newline)
  define R where "R = split_nl (last L @ concat rs)"
  have split: "split_nl (buffer st @ concat (r # rs)) = butlast L @ R"
    using split_nl_append [of "buffer st @ r" "concat rs"] by (simp add: L_def R_def)
  have Rne: "R \<noteq> []" by (simp add: R_def)
  have bl: "butlast (butlast L @ R) = butlast L @ butlast R"
    using Rne by (simp add: butlast_append)
  have la: "last (butlast L @ R) = last R"
    using Rne by simp
  have ih: "process_reads parse clock m st1 rs =
      process_lines parse clock m (st1\<lparr>buffer := last R\<rparr>) (butlast R)"
    using Cons.IH [OF nn] by (simp add: b1 R_def)
  have p1': "process_lines parse clock m (st\<lparr>buffer := last R\<rparr>) (butlast L) = (st1\<lparr>buffer := last R\<rparr>, ws1)"
    using p1 process_lines_buffer [where st = st and b = "last L" and ls = "butlast L"]
          process_lines_buffer [where st = st and b = "last R" and ls = "butlast L"]
    by (auto simp: Let_def split: prod.splits)
  show ?case
    unfolding split bl la
    by (simp add: process_read_def L_def [symmetric] p1 ih process_lines_append p1' Let_def
             split: prod.splits)
qed

lemma handle_event_plain_buffer:
  "handle_event_plain clock m (st\<lparr>buffer := b\<rparr>) ev =
     (let (st', ws) = handle_event_plain clock m st ev in (st'\<lparr>buffer := b\<rparr>, ws))"
  by (simp add: handle_event_plain_def makeChunk_def Let_def)

lemma process_line_plain_buffer:
  "process_line_plain parse clock m (st\<lparr>buffer := b\<rparr>) l =
     (let (st', ws) = process_line_plain parse clock m st l in (st'\<lparr>buffer := b\<rparr>, ws))"
  by (simp add: process_line_plain_def handle_event_plain_buffer split: option.splits)

lemma process_lines_plain_buffer:
  "process_lines_plain parse clock m (st\<lparr>buffer := b\<rparr>) ls =
     (let (st', ws) = process_lines_plain parse clock m st ls in (st'\<lparr>buffer := b\<rparr>, ws))"
proof (induction ls arbitrary: st)
  case Nil
  show ?case by simp
next
  case (Cons l ls)
  show ?case
    by (simp add: process_line_plain_buffer Cons.IH Let_def split: prod.splits)
qed

lemma process_lines_plain_append:
  "process_lines_plain parse clock m st (xs @ ys) =
     (let (st1, ws1) = process_lines_plain parse clock m st xs;
          (st2, ws2) = process_lines_plain parse clock m st1 ys
      in (st2, ws1 @ ws2))"
  by (induction xs arbitrary: st) (auto simp: Let_def split: prod.splits)

lemma handle_event_plain_keeps_buffer:
  "handle_event_plain clock m st ev = (st', ws) \<Longrightarrow> buffer st' = buffer st"
  by (auto simp: handle_event_plain_def makeChunk_def Let_def split: if_splits)

lemma process_lines_plain_keeps_buffer:
  "process_lines_plain parse clock m st ls = (st', ws) \<Longrightarrow> buffer st' = buffer st"
proof (induction ls arbitrary: st st' ws)
  case Nil
  then show ?case by simp
next
  case (Cons l ls)
  then show ?case
    by (auto simp: Let_def process_line_plain_def split: prod.splits option.splits
             dest!: handle_event_plain_keeps_buffer)
qed

lemma process_reads_plain_lines:
  assumes "CHR 0x0A \<notin> set (buffer st)"
  shows "process_reads_plain parse clock m st reads =
     process_lines_plain parse clock m (st\<lparr>buffer := last (split_nl (buffer st @ concat reads))\<rparr>)
        (butlast (split_nl (buffer st @ concat reads)))"
  using assms
proof (induction reads arbitrary: st)
  case Nil
  then show ?case by (simp add: split_nl_no_newline)
next
  case (Cons r rs)
  define L where "L = split_nl (buffer st @ r)"
  obtain st1 ws1 where p1: "process_lines_plain parse clock m (st\<lparr>buffer := last L\<rparr>) (butlast L) = (st1, ws1)"
    by (cases "process_lines_plain parse clock m (st\<lparr>buffer := last L\<rparr>) (butlast L)") auto
  have b1: "buffer st1 = last L"
    using process_lines_plain_keeps_buffer [OF p1] by simp
  have nn: "CHR 0x0A \<notin> set (buffer st1)"
    unfolding b1 L_def by (rule last_split_nl_no_newline)
  define R where "R = split_nl (last L @ concat rs)"
  have split: "split_nl (buffer st @ concat (r # rs)) = butlast L @ R"
    using split_nl_append [of "buffer st @ r" "concat rs"] by (simp add: L_def R_def)
  have Rne: "R \<noteq> []" by (simp add: R_def)
  have bl: "butlast (butlast L @ R) = butlast L @ butlast R"
    using Rne by (simp add: butlast_append)
  have la: "last (butlast L @ R) = last R"
    using Rne by simp
  have ih: "process_reads_plain parse clock m st1 rs =
      process_lines_plain parse clock m (st1\<lparr>buffer := last R\<rparr>) (butlast R)"
    using Cons.IH [OF nn] by (simp add: b1 R_def)
  have p1': "process_lines_plain parse clock m (st\<lparr>buffer := last R\<rparr>) (butlast L) = (st1\<lparr>buffer := last R\<rparr>, ws1)"
    using p1 process_lines_plain_buffer [where st = st and b = "last L" and ls = "butlast L"]
          process_lines_plain_buffer [where st = st and b = "last R" and ls = "butlast L"]
    by (auto simp: Let_def split: prod.splits)
  show ?case
    unfolding split bl la
    by (simp add: process_read_plain_def L_def [symmetric] p1 ih process_lines_plain_append p1' Let_def
             split: prod.splits)
qed

subsection \<open>What the stream translator writes\<close>

lemma handle_event_chunks:
  "handle_event clock m st ev = (st', ws) \<Longrightarrow> w \<in> set ws \<Longrightarrow>
   \<exists>c ch. w = SseChunk c \<and> chunk_object c = ''chat.completion.chunk'' \<and>
      chunk_model c = ''clawrouter/'' @ m \<and> choices c = [ch] \<and> choice_index ch = 0"
  by (auto simp: handle_event_def makeChunk_def Let_def split: if_splits)

lemma process_lines_chunks:
  "process_lines parse clock m st ls = (st', ws) \<Longrightarrow> w \<in> set ws \<Longrightarrow>
   \<exists>c ch. w = SseChunk c \<and> chunk_object c = ''chat.completion.chunk'' \<and>
      chunk_model c = ''clawrouter/'' @ m \<and> choices c = [ch] \<and> choice_index ch = 0"
proof (induction ls arbitrary: st st' ws)
  case Nil
  then show ?case by simp
next
  case (Cons l ls)
  obtain st1 ws1 where p1: "process_line parse clock m st l = (st1, ws1)"
    by (cases "process_line parse clock m st l") auto
  obtain st2 ws2 where p2: "process_lines parse clock m st1 ls = (st2, ws2)"
    by (cases "process_lines parse clock m st1 ls") auto
  from Cons.prems p1 p2 have ws: "ws = ws1 @ ws2" by simp
  from Cons.prems(2) ws consider "w \<in> set ws1" | "w \<in> set ws2" by auto
  then show ?case
  proof cases
    case 1
    with p1 show ?thesis
      by (auto simp: process_line_def split: option.splits dest: handle_event_chunks)
  next
    case 2
    with Cons.IH [OF p2] show ?thesis by blast
  qed
qed

lemma process_reads_chunks:
  "process_reads parse clock m st rs = (st', ws) \<Longrightarrow> w \<in> set ws \<Longrightarrow>
   \<exists>c ch. w = SseChunk c \<and> chunk_object c = ''chat.completion.chunk'' \<and>
      chunk_model c = ''clawrouter/'' @ m \<and> choices c = [ch] \<and> choice_index ch = 0"
proof (induction rs arbitrary: st st' ws)
  case Nil
  then show ?case by simp
next
  case (Cons r rs)
  obtain st1 ws1 where p1: "process_read parse clock m st r = (st1, ws1)"
    by (cases "process_read parse clock m st r") auto
  obtain st2 ws2 where p2: "process_reads parse clock m st1 rs = (st2, ws2)"
    by (cases "process_reads parse clock m st1 rs") auto
  from Cons.prems p1 p2 have ws: "ws = ws1 @ ws2" by simp
  from Cons.prems(2) ws consider "w \<in> set ws1" | "w \<in> set ws2" by auto
  then show ?case
  proof cases
    case 1
    with p1 show ?thesis
      unfolding process_read_def Let_def by (rule process_lines_chunks)
  next
    case 2
    with Cons.IH [OF p2] show ?thesis by blast
  qed
qed

lemma handle_event_plain_chunks:
  "handle_event_plain clock m st ev = (st', ws) \<Longrightarrow> w \<in> set ws \<Longrightarrow>
   \<exists>c ch. w = SseChunk c \<and> chunk_object c = ''chat.completion.chunk'' \<and>
      chunk_model c = ''clawrouter/'' @ m \<and> choices c = [ch] \<and> choice_index ch = 0"
  by (auto simp: handle_event_plain_def makeChunk_def Let_def split: if_splits)

lemma process_lines_plain_chunks:
  "process_lines_plain parse clock m st ls = (st', ws) \<Longrightarrow> w \<in> set ws \<Longrightarrow>
   \<exists>c ch. w = SseChunk c \<and> chunk_object c = ''chat.completion.chunk'' \<and>
      chunk_model c = ''clawrouter/'' @ m \<and> choices c = [ch] \<and> choice_index ch = 0"
proof (induction ls arbitrary: st st' ws)
  case Nil
  then show ?case by simp
next
  case (Cons l ls)
  obtain st1 ws1 where p1: "process_line_plain parse clock m st l = (st1, ws1)"
    by (cases "process_line_plain parse clock m st l") auto
  obtain st2 ws2 where p2: "process_lines_plain parse clock m st1 ls = (st2, ws2)"
    by (cases "process_lines_plain parse clock m st1 ls") auto
  from Cons.prems p1 p2 have ws: "ws = ws1 @ ws2" by simp
  from Cons.prems(2) ws consider "w \<in> set ws1" | "w \<in> set ws2" by auto
  then show ?case
  proof cases
    case 1
    with p1 show ?thesis
      by (auto simp: process_line_plain_def split: option.splits dest: handle_event_plain_chunks)
  next
    case 2
    with Cons.IH [OF p2] show ?thesis by blast
  qed
qed

lemma process_reads_plain_chunks:
  "process_reads_plain parse clock m st rs = (st', ws) \<Longrightarrow> w \<in> set ws \<Longrightarrow>
   \<exists>c ch. w = SseChunk c \<and> chunk_object c = ''chat.completion.chunk'' \<and>
      chunk_model c = ''clawrouter/'' @ m \<and> choices c = [ch] \<and> choice_index ch = 0"
proof (induction rs arbitrary: st st' ws)
  case Nil
  then show ?case by simp
next
  case (Cons r rs)
  obtain st1 ws1 where p1: "process_read_plain parse clock m st r = (st1, ws1)"
    by (cases "process_read_plain parse clock m st r") auto
  obtain st2 ws2 where p2: "process_reads_plain parse clock m st1 rs = (st2, ws2)"
    by (cases "process_reads_plain parse clock m st1 rs") auto
  from Cons.prems p1 p2 have ws: "ws = ws1 @ ws2" by simp
  from Cons.prems(2) ws consider "w \<in> set ws1" | "w \<in> set ws2" by auto
  then show ?case
  proof cases
    case 1
    with p1 show ?thesis
      unfolding process_read_plain_def Let_def by (rule process_lines_plain_chunks)
  next
    case 2
    with Cons.IH [OF p2] show ?thesis by blast
  qed
qed

lemma process_reads_initial:
  "snd (process_reads parse clock m initial_stream_state reads) =
   snd (process_lines parse clock m initial_stream_state (butlast (split_nl (concat reads))))"
proof -
  have b: "buffer initial_stream_state = []"
    by (simp add: initial_stream_state_def)
  then have "CHR 0x0A \<notin> set (buffer initial_stream_state)"
    by simp
  from process_reads_lines [OF this, of parse clock m reads]
  show ?thesis
    by (simp add: b process_lines_buffer Let_def split: prod.splits)
qed

lemma process_reads_plain_initial:
  "snd (process_reads_plain parse clock m initial_stream_state reads) =
   snd (process_lines_plain parse clock m initial_stream_state (butlast (split_nl (concat reads))))"
proof -
  have b: "buffer initial_stream_state = []"
    by (simp add: initial_stream_state_def)
  then have "CHR 0x0A \<notin> set (buffer initial_stream_state)"
    by simp
  from process_reads_plain_lines [OF this, of parse clock m reads]
  show ?thesis
    by (simp add: b process_lines_plain_buffer Let_def split: prod.splits)
qed

lemma handle_event_flag:
  "insideThinking (fst (handle_event clock m st ev)) =
     (if block_boundary ev then opens_thinking ev else insideThinking st)"
  by (cases ev)
     (auto simp: handle_event_def makeChunk_def block_boundary_def opens_thinking_def Let_def
        opt_get_def)

lemma handle_event_plain_flag:
  "insideThinking (fst (handle_event_plain clock m st ev)) =
     (if block_boundary ev then opens_thinking ev else insideThinking st)"
  by (cases ev)
     (auto simp: handle_event_plain_def makeChunk_def block_boundary_def opens_thinking_def Let_def
        opt_get_def)

lemma process_lines_flag:
  "insideThinking (fst (process_lines parse clock m st ls)) =
     (let boundaries = filter block_boundary (upstream_events parse ls)
      in if boundaries = [] then insideThinking st else opens_thinking (last boundaries))"
proof (induction ls arbitrary: st)
  case Nil
  show ?case by (simp add: upstream_events_def map_filter_simps)
next
  case (Cons l ls)
  obtain st1 ws1 where p1: "process_line parse clock m st l = (st1, ws1)"
    by (cases "process_line parse clock m st l") auto
  have flag1: "insideThinking st1 =
      (case line_event parse l of
         None \<Rightarrow> insideThinking st
       | Some ev \<Rightarrow> if block_boundary ev then opens_thinking ev else insideThinking st)"
  proof (cases "line_event parse l")
    case None
    with p1 show ?thesis by (simp add: process_line_def)
  next
    case (Some ev)
    with p1 have "handle_event clock m st ev = (st1, ws1)" by (simp add: process_line_def)
    with handle_event_flag [of clock m st ev] Some show ?thesis by simp
  qed
  have step: "fst (process_lines parse clock m st (l # ls)) = fst (process_lines parse clock m st1 ls)"
    by (simp add: p1 split: prod.splits)
  show ?case
    unfolding step Cons.IH [of st1]
    by (auto simp: flag1 upstream_events_def map_filter_simps Let_def split: option.splits)
qed

lemma process_lines_plain_flag:
  "insideThinking (fst (process_lines_plain parse clock m st ls)) =
     (let boundaries = filter block_boundary (upstream_events parse ls)
      in if boundaries = [] then insideThinking st else opens_thinking (last boundaries))"
proof (induction ls arbitrary: st)
  case Nil
  show ?case by (simp add: upstream_events_def map_filter_simps)
next
  case (Cons l ls)
  obtain st1 ws1 where p1: "process_line_plain parse clock m st l = (st1, ws1)"
    by (cases "process_line_plain parse clock m st l") auto
  have flag1: "insideThinking st1 =
      (case line_event parse l of
         None \<Rightarrow> insideThinking st
       | Some ev \<Rightarrow> if block_boundary ev then opens_thinking ev else insideThinking st)"
  proof (cases "line_event parse l")
    case None
    with p1 show ?thesis by (simp add: process_line_plain_def)
  next
    case (Some ev)
    with p1 have "handle_event_plain clock m st ev = (st1, ws1)" by (simp add: process_line_plain_def)
    with handle_event_plain_flag [of clock m st ev] Some show ?thesis by simp
  qed
  have step: "fst (process_lines_plain parse clock m st (l # ls)) =
              fst (process_lines_plain parse clock m st1 ls)"
    by (simp add: p1 split: prod.splits)
  show ?case
    unfolding step Cons.IH [of st1]
    by (auto simp: flag1 upstream_events_def map_filter_simps Let_def split: option.splits)
qed

lemma flag_is_upstream_block:
  "insideThinking (fst (process_lines parse clock m initial_stream_state ls)) =
     inside_thinking_block (upstream_events parse ls)"
  "insideThinking (fst (process_lines_plain parse clock m initial_stream_state ls)) =
     inside_thinking_block (upstream_events parse ls)"
  by (auto simp: process_lines_flag process_lines_plain_flag inside_thinking_block_def Let_def
        initial_stream_state_def)

lemma thinking_line_skipped:
  assumes "insideThinking st" "line_event parse l = Some ev"
      and "js_get ev ''type'' = Str ''content_block_delta''"
  shows "process_line parse clock m st l = (st, [])"
  using assms by (cases ev) (auto simp: process_line_def handle_event_def)

lemma thinking_line_skipped_plain:
  assumes "insideThinking st" "line_event parse l = Some ev"
      and "js_get ev ''type'' = Str ''content_block_delta''"
  shows "process_line_plain parse clock m st l = (st, [])"
  using assms by (cases ev) (auto simp: process_line_plain_def handle_event_plain_def)

lemma process_lines_skip:
  assumes "insideThinking (fst (process_lines parse clock m st pre))"
      and "line_event parse l = Some ev" "js_get ev ''type'' = Str ''content_block_delta''"
  shows "process_lines parse clock m st (pre @ l # post) = process_lines parse clock m st (pre @ post)"
proof -
  obtain st1 ws1 where p: "process_lines parse clock m st pre = (st1, ws1)"
    by (cases "process_lines parse clock m st pre") auto
  with assms(1) have "insideThinking st1" by simp
  from thinking_line_skipped [OF this assms(2,3)]
  have "process_line parse clock m st1 l = (st1, [])" .
  then show ?thesis
    by (simp add: process_lines_append p Let_def split: prod.splits)
qed

lemma process_lines_plain_skip:
  assumes "insideThinking (fst (process_lines_plain parse clock m st pre))"
      and "line_event parse l = Some ev" "js_get ev ''type'' = Str ''content_block_delta''"
  shows "process_lines_plain parse clock m st (pre @ l # post) = process_lines_plain parse clock m st (pre @ post)"
proof -
  obtain st1 ws1 where p: "process_lines_plain parse clock m st pre = (st1, ws1)"
    by (cases "process_lines_plain parse clock m st pre") auto
  with assms(1) have "insideThinking st1" by simp
  from thinking_line_skipped_plain [OF this assms(2,3)]
  have "process_line_plain parse clock m st1 l = (st1, [])" .
  then show ?thesis
    by (simp add: process_lines_plain_append p Let_def split: prod.splits)
qed

lemma forwardToAnthropic_body:
  assumes "forwardToAnthropic up m res0 stream = (res', r)" "w \<in> set (body res')" "w \<notin> set (body res0)"
  shows "w = DONE \<or> (\<exists>d. w = CompletionBody d \<and> completion_model d = ''clawrouter/'' @ m) \<or>
         (\<exists>c ch. w = SseChunk c \<and> chunk_object c = ''chat.completion.chunk'' \<and>
            chunk_model c = ''clawrouter/'' @ m \<and> choices c = [ch] \<and> choice_index ch = 0)"
  using assms
  by (auto simp: forwardToAnthropic_def res_write_def res_end_def writeHead_def Let_def
        anthropic_to_openai_def
      split: option.splits if_splits fetch_result.splits sum.splits prod.splits
      dest: process_reads_chunks)

lemma forwardToAnthropic_plain_body:
  assumes "forwardToAnthropic_plain up m res0 stream = (res', r)" "w \<in> set (body res')" "w \<notin> set (body res0)"
  shows "w = DONE \<or> (\<exists>d. w = CompletionBody d \<and> completion_model d = ''clawrouter/'' @ m) \<or>
         (\<exists>c ch. w = SseChunk c \<and> chunk_object c = ''chat.completion.chunk'' \<and>
            chunk_model c = ''clawrouter/'' @ m \<and> choices c = [ch] \<and> choice_index ch = 0)"
  using assms
  by (auto simp: forwardToAnthropic_plain_def res_write_def res_end_def writeHead_def Let_def
        anthropic_to_openai_plain_def
      split: option.splits if_splits fetch_result.splits sum.splits prod.splits
      dest: process_reads_plain_chunks)

lemma sample_lines:
  "butlast (split_nl (concat sample_stream)) =
     [''event: content_block_start'',
      ''data: {\"type\":\"content_block_start\",\"content_block\":{\"type\":\"thinking\"}}'',
      ''''] @
     ''data: {\"type\":\"content_block_delta\",\"delta\":{\"type\":\"text_delta\",\"text\":\"secret\"}}'' #
     ['''', ''data: {\"type\":\"content_block_stop\"}'', '''',
      ''data: {\"type\":\"content_block_delta\",\"delta\":{\"type\":\"text_delta\",\"text\":\"Hi\"}}'', '''',
      ''data: {\"type\":\"message_stop\"}'', '''']"
  by (simp add: sample_stream_def)

lemma sample_lines_without_delta:
  "butlast (split_nl (concat sample_stream_without_delta)) =
     [''event: content_block_start'',
      ''data: {\"type\":\"content_block_start\",\"content_block\":{\"type\":\"thinking\"}}'',
      ''''] @
     ['''', ''data: {\"type\":\"content_block_stop\"}'', '''',
      ''data: {\"type\":\"content_block_delta\",\"delta\":{\"type\":\"text_delta\",\"text\":\"Hi\"}}'', '''',
      ''data: {\"type\":\"message_stop\"}'', '''']"
  by (simp add: sample_stream_without_delta_def)

lemma sample_delta_event:
  "line_event JSON_parse_sample
     ''data: {\"type\":\"content_block_delta\",\"delta\":{\"type\":\"text_delta\",\"text\":\"secret\"}}'' =
   Some (Obj [(''type'', Str ''content_block_delta''),
              (''delta'', Obj [(''type'', Str ''text_delta''), (''text'', Str ''secret'')])])"
  by (simp add: line_event_def startsWith_def trim_def is_space_def JSON_parse_sample_def sample_json_def)

lemma sample_inside_thinking:
  "inside_thinking_block (upstream_events JSON_parse_sample
     [''event: content_block_start'',
      ''data: {\"type\":\"content_block_start\",\"content_block\":{\"type\":\"thinking\"}}'',
      []])"
  by (simp add: inside_thinking_block_def upstream_events_def map_filter_simps line_event_def
        startsWith_def trim_def is_space_def JSON_parse_sample_def sample_json_def
        block_boundary_def opens_thinking_def opt_get_def)

lemma sample_run:
  "forwardToAnthropic sample_upstream ''claude-sonnet-4-5'' new_response True =
    (\<lparr>headersSent = True, writableEnded = True, statusCode = Some 200,
        headers = sse_headers,
        body =
          [SseChunk
            \<lparr>chunk_id = ''chatcmpl-5000'', chunk_object = ''chat.completion.chunk'',
               chunk_created = 5, chunk_model = ''clawrouter/claude-sonnet-4-5'',
               choices = [\<lparr>choice_index = 0, delta = Obj [(''content'', Str ''Hi'')], finish_reason = None\<rparr>]\<rparr>,
           SseChunk
            \<lparr>chunk_id = ''chatcmpl-5002'', chunk_object = ''chat.completion.chunk'',
               chunk_created = 5, chunk_model = ''clawrouter/claude-sonnet-4-5'',
               choices = [\<lparr>choice_index = 0, delta = Obj [], finish_reason = Some ''stop''\<rparr>]\<rparr>,
           DONE]\<rparr>, None)"
  by (simp add: forwardToAnthropic_def sample_upstream_def sample_stream_def process_read_def
        process_line_def line_event_def startsWith_def trim_def is_space_def handle_event_def
        makeChunk_def JSON_parse_sample_def sample_json_def initial_stream_state_def
        new_response_def writeHead_def res_write_def res_end_def sse_headers_def opt_get_def
        nullish_or_def show_nat.simps Let_def DONE_def)

subsection \<open>What the pass-through writes\<close>


lemma rewrite_model_nullish [simp]: "nullish (rewrite_model m u) = nullish u"
  by (cases u) (auto simp: rewrite_model_def)

lemma body_res_end [simp]: "body (res_end res) = body res"
  by (simp add: res_end_def)

lemma body_writeHead [simp]: "body (writeHead st hs res) = body res"
  by (simp add: writeHead_def)















subsection \<open>The fallback loop\<close>

lemma headersSent_res_end [simp]: "headersSent (res_end r)"
  by (simp add: res_end_def)

lemma headersSent_writeHead [simp]: "headersSent (writeHead st hs r)"
  by (simp add: writeHead_def)

lemma headersSent_res_write [simp]: "headersSent r \<Longrightarrow> headersSent (res_write ps r)"
  by (simp add: res_write_def)









lemma body_setHeader [simp]: "body (setHeader k v r) = body r"
  by (simp add: setHeader_def)


lemma after_loop_attempts [simp]: "attempts (after_loop st) = attempts st"
  by (simp add: after_loop_def Let_def)





subsection \<open>Tool calls there and back\<close>

lemma tool_calls_of_tool_use:
  assumes "\<forall>tc \<in> set tcs. \<exists>v. parse (function_arguments tc) = Some v \<and> \<not> nullish v"
  shows "tool_calls_of stringify clock t idx (map (tool_use_block parse) tcs) =
     (map (\<lambda>tc. \<lparr>call_id = call_id tc, call_type = ''function'', function_name = function_name tc,
                   function_arguments = stringify (the (parse (function_arguments tc)))\<rparr>) tcs, t)"
  using assms
proof (induction tcs arbitrary: idx)
  case Nil
  show ?case by simp
next
  case (Cons tc tcs)
  from Cons.prems obtain v where v: "parse (function_arguments tc) = Some v" "\<not> nullish v"
    by auto
  from Cons.prems have "\<forall>tc \<in> set tcs. \<exists>v. parse (function_arguments tc) = Some v \<and> \<not> nullish v"
    by simp
  from Cons.IH [OF this] v show ?case
    by (simp add: tool_use_block_def empty_block_def nullish_or_def)
qed

lemma filter_tool_use_blocks:
  "filter (\<lambda>b. block_type b = ''tool_use'') (map (tool_use_block parse) tcs) = map (tool_use_block parse) tcs"
  by (induction tcs) (simp_all add: tool_use_block_def)

lemma round_trip_value:
  assumes "chat_role msg = ''assistant''" "chat_tool_calls msg = Some tcs" "tcs \<noteq> []"
      and "\<forall>tc \<in> set tcs. \<exists>v. parse (function_arguments tc) = Some v \<and> \<not> nullish v"
  shows "tool_calls_round_trip parse stringify clock msg =
     Some (map (\<lambda>tc. \<lparr>call_id = call_id tc, call_type = ''function'', function_name = function_name tc,
                   function_arguments = stringify (the (parse (function_arguments tc)))\<rparr>) tcs)"
  using assms
  by (simp add: tool_calls_round_trip_def convertMessagesToAnthropic_def convert_message_def Let_def
        anthropic_to_openai_def filter_tool_use_blocks tool_calls_of_tool_use empty_block_def)

subsection \<open>The three prefix forms\<close>

lemma letter_not_space: "is_letter c \<Longrightarrow> \<not> is_space c"
  by (auto simp: is_letter_def is_space_def)

lemma takeWhile_run:
  assumes "\<forall>c \<in> set xs. P c" and "ys = [] \<or> \<not> P (hd ys)"
  shows "takeWhile P (xs @ ys) = xs" and "dropWhile P (xs @ ys) = ys"
  using assms by (cases ys; simp add: takeWhile_append2 dropWhile_append2)+

lemma trim_dropWhile [simp]: "trim (dropWhile is_space s) = trim s"
  by (simp add: trim_def)

lemma trim_spaces_append:
  "\<forall>c \<in> set ws. is_space c \<Longrightarrow> trim (ws @ s) = trim s"
  by (simp add: trim_def dropWhile_append2)

lemma dropWhile_spaces_append:
  "\<forall>c \<in> set ws. is_space c \<Longrightarrow> dropWhile is_space (ws @ s) = dropWhile is_space s"
  by (simp add: dropWhile_append2)

lemma lower_mode_head:
  assumes "toLowerCase md = ''mode''"
  shows "length md = 4" and "\<not> is_space (hd md)" and "md \<noteq> []"
proof -
  from assms have "length (toLowerCase md) = length ''mode''"
    by simp
  then have len: "length md = 4"
    by (simp add: toLowerCase_def)
  then obtain a b c d where md: "md = [a, b, c, d]"
    by (auto simp: eval_nat_numeral length_Suc_conv)
  with assms have "lower_char a = CHR ''m''" by (simp add: toLowerCase_def)
  then have "a = CHR ''m'' \<or> a = CHR ''M''"
    by (auto simp: lower_char_def split: if_splits option.splits)
  then have "\<not> is_space a" by (auto simp: is_space_def)
  with md len show "length md = 4" "\<not> is_space (hd md)" "md \<noteq> []" by simp_all
qed

lemma slash_form:
  assumes "word \<noteq> []" "\<forall>c \<in> set word. is_letter c" "ws \<noteq> []" "\<forall>c \<in> set ws. is_space c"
  shows "slashMatch (''/'' @ word @ ws @ text) = Some (word, dropWhile is_space text)"
proof -
  have ws_head: "\<not> is_letter (hd (ws @ text))"
    using assms(3,4) letter_not_space by (cases ws) auto
  have tw: "takeWhile is_letter (word @ ws @ text) = word"
       "dropWhile is_letter (word @ ws @ text) = ws @ text"
    using takeWhile_run [of word is_letter "ws @ text"] assms(2) ws_head by simp_all
  have "takeWhile is_space (ws @ text) \<noteq> []"
    using assms(3,4) by (cases ws) auto
  with tw assms(1,4) show ?thesis
    by (simp add: slashMatch_def dropWhile_spaces_append)
qed

lemma prefix_form:
  assumes "word \<noteq> []" "\<forall>c \<in> set word. is_letter c" "ws \<noteq> []" "\<forall>c \<in> set ws. is_space c"
      and "toLowerCase md = ''mode''" "sep \<noteq> []" "\<forall>c \<in> set sep. is_sep c"
  shows "prefixMatch (word @ ws @ md @ sep @ text) = Some (word, dropWhile is_sep text)"
proof -
  have ws_head: "\<not> is_letter (hd (ws @ md @ sep @ text))"
    using assms(3,4) letter_not_space by (cases ws) auto
  have tw: "takeWhile is_letter (word @ ws @ md @ sep @ text) = word"
       "dropWhile is_letter (word @ ws @ md @ sep @ text) = ws @ md @ sep @ text"
    using takeWhile_run [of word is_letter "ws @ md @ sep @ text"] assms(2) ws_head by simp_all
  have md_head: "\<not> is_space (hd (md @ sep @ text))"
    using lower_mode_head [OF assms(5)] by (cases md) auto
  have sp: "takeWhile is_space (ws @ md @ sep @ text) = ws"
       "dropWhile is_space (ws @ md @ sep @ text) = md @ sep @ text"
    using takeWhile_run [of ws is_space "md @ sep @ text"] assms(4) md_head by simp_all
  have len: "length md = 4" using lower_mode_head [OF assms(5)] by simp
  have se: "takeWhile is_sep (sep @ text) \<noteq> []" "dropWhile is_sep (sep @ text) = dropWhile is_sep text"
    using assms(6,7) by (cases sep; simp add: dropWhile_append2)+
  show ?thesis
    using assms(1,3,5) tw sp len se by (simp add: prefixMatch_def Let_def)
qed

lemma bracket_form:
  assumes "word \<noteq> []" "\<forall>c \<in> set word. is_letter c" "\<forall>c \<in> set ws. is_space c"
  shows "bracketMatch (''['' @ word @ '']'' @ ws @ text) = Some (word, dropWhile is_space text)"
proof -
  have br: "\<not> is_letter (hd ('']'' @ ws @ text))"
    by (simp add: is_letter_def)
  have tw: "takeWhile is_letter (word @ '']'' @ ws @ text) = word"
       "dropWhile is_letter (word @ '']'' @ ws @ text) = '']'' @ ws @ text"
    using takeWhile_run [of word is_letter "'']'' @ ws @ text"] assms(2) br by simp_all
  with assms(1,3) show ?thesis
    by (simp add: bracketMatch_def dropWhile_spaces_append)
qed

lemma slash_only:
  "prefixMatch (CHR ''/'' # s) = None" "bracketMatch (CHR ''/'' # s) = None"
  by (simp_all add: prefixMatch_def bracketMatch_def is_letter_def Let_def)

lemma bracket_only:
  "slashMatch (CHR ''['' # s) = None" "prefixMatch (CHR ''['' # s) = None"
  by (simp_all add: prefixMatch_def slashMatch_def is_letter_def Let_def)

lemma letter_only:
  assumes "word \<noteq> []" "\<forall>c \<in> set word. is_letter c"
  shows "slashMatch (word @ s) = None" "bracketMatch (word @ s) = None"
proof -
  from assms obtain c cs where w: "word = c # cs" "is_letter c" by (cases word) auto
  then have "c \<noteq> CHR ''/''" "c \<noteq> CHR ''[''" by (auto simp: is_letter_def)
  with w show "slashMatch (word @ s) = None" "bracketMatch (word @ s) = None"
    by (simp_all add: slashMatch_def bracketMatch_def)
qed


lemma constructor_is_taken_for_a_mode:
  "detectModeOverride ''/constructor hi'' = Some (Inherited ''constructor'', ''hi'')"
  by (simp add: detectModeOverride_def override_of_def slashMatch_def is_letter_def is_space_def
       toLowerCase_def lower_char_def modeMap_get_def modeMap_def trim_def Object_prototype_keys_def)

subsection \<open>Routing\<close>

lemmas route_defs =
  route_def route_revised_def selectModel_def estimate_tokens_def structured_output_regex_def
  toLowerCase_def lower_char_def startsWith_def DEFAULT_ROUTING_CONFIG_def Let_def

text \<open>The tier before the structured-output rule: the classifier's, or the default.\<close>

lemma route_revised_tier:
  assumes "estimate_tokens ((case systemPrompt of Some sp \<Rightarrow> sp | None \<Rightarrow> []) @ '' '' @ prompt)
             \<le> maxTokensForceComplex (overrides config)"
  shows "decision_tier (route_revised classify toFixed2 config modelPricing prompt systemPrompt maxOut) =
     (let t1 = (case result_tier (classify prompt systemPrompt (estimate_tokens prompt)) of
                  Some t \<Rightarrow> t | None \<Rightarrow> ambiguousDefaultTier (overrides config))
      in if structured_output_regex prompt
            \<and> tierRank t1 < tierRank (structuredOutputMinTier (overrides config))
         then structuredOutputMinTier (overrides config) else t1)"
  using assms
  by (simp add: route_revised_def selectModel_def Let_def split: option.splits prod.splits)

subsection \<open>Configuration\<close>

lemma custom_loaded:
  "active_config (loadConfig custom_files unloaded) =
     Some (Obj (AList.update ''port'' (Num 9000) DEFAULT_CONFIG))"
  by (simp add: loadConfig_def custom_files_def unloaded_def deepMerge_def DEFAULT_CONFIG_def
        default_tier_table_def Let_def)

section \<open>Structured output\<close>

text \<open>
  C1. The claim is that the structured-output upgrade is decided by the user prompt
  only. \<^verbatim>\<open>route\<close> of \<^verbatim>\<open>src/router/index.ts\<close> decides it by the system prompt: with
  the default configuration and a classifier that answers SIMPLE, the user prompt
  \<open>hi\<close>, which does not match, is routed to SIMPLE without a system prompt and to
  MEDIUM with the system prompt \<open>Reply in JSON.\<close>, and the user prompt
  \<open>give me json\<close>, which matches, is not upgraded. The other copy of the function
  in the repository tests the user prompt (lemma \<open>route_revised_tier\<close>).
\<close>

theorem route_upgrades_on_system_prompt:
  "\<not> structured_output_regex ''hi''
   \<and> decision_tier (route simple_classifier (\<lambda>r. ''-0.10'') DEFAULT_ROUTING_CONFIG Map.empty
                       ''hi'' None 4096) = SIMPLE
   \<and> decision_tier (route simple_classifier (\<lambda>r. ''-0.10'') DEFAULT_ROUTING_CONFIG Map.empty
                       ''hi'' (Some ''Reply in JSON.'') 4096) = MEDIUM
   \<and> decision_reasoning (route simple_classifier (\<lambda>r. ''-0.10'') DEFAULT_ROUTING_CONFIG Map.empty
                       ''hi'' (Some ''Reply in JSON.'') 4096)
       = ''score=-0.10 | short | upgraded to MEDIUM (structured output)''
   \<and> structured_output_regex ''give me json''
   \<and> decision_tier (route simple_classifier (\<lambda>r. ''-0.10'') DEFAULT_ROUTING_CONFIG Map.empty
                       ''give me json'' None 4096) = SIMPLE"
  by (simp add: route_defs simple_classifier_def)

section \<open>The outgoing model field\<close>




section \<open>Configuration reload\<close>

text \<open>
  C3, as the code has it. If reading or parsing the configuration file fails during a
  reload (or the merged configuration has \<open>providers\<close> or \<open>tiers\<close> set to null,
  which makes the log lines after the merge throw), the active configuration becomes
  the built-in default configuration and the recorded path becomes null, whatever
  snapshot was active before; the reload endpoint answers 200. No other validation is
  performed.
\<close>

theorem failed_reload_installs_defaults:
  assumes "reload_fails files"
  shows "active_config (reloadConfig files st) = Some (Obj DEFAULT_CONFIG)
         \<and> configPath (reloadConfig files st) = None
         \<and> snd (getConfig files (reloadConfig files st)) = Obj DEFAULT_CONFIG
         \<and> active_config (fst (handleReloadConfig files st r)) = Some (Obj DEFAULT_CONFIG)
         \<and> statusCode (snd (handleReloadConfig files st r)) = Some 200"
proof -
  from assms have a: "active_config (reloadConfig files st) = Some (Obj DEFAULT_CONFIG)"
    and b: "configPath (reloadConfig files st) = None"
    by (auto simp: reload_fails_def reloadConfig_def loadConfig_def use_defaults_def Let_def
        split: option.splits file_result.splits)
  from a have c: "getConfig files (reloadConfig files st) = (reloadConfig files st, Obj DEFAULT_CONFIG)"
    by (simp add: getConfig_def)
  have d: "statusCode (snd (handleReloadConfig files st r)) = Some 200"
    by (simp add: handleReloadConfig_def Let_def res_end_def res_write_def writeHead_def
        split: prod.splits)
  from a b c d show ?thesis
    by (simp add: handleReloadConfig_def Let_def)
qed

theorem failed_reload_installs_defaults_witness:
  "reload_fails broken_files
   \<and> snd (getConfig broken_files (reloadConfig broken_files (loadConfig custom_files unloaded)))
       = Obj DEFAULT_CONFIG"
proof -
  have f: "reload_fails broken_files"
    by (simp add: reload_fails_def broken_files_def)
  from failed_reload_installs_defaults [OF f, of "loadConfig custom_files unloaded"] f
  show ?thesis by simp
qed

text \<open>
  The claim as stated fails: a configuration loaded from a file that sets the port
  to 9000 is replaced by the defaults when the next reload finds the file unparsable.
\<close>

theorem failed_reload_discards_snapshot:
  "active_config (loadConfig custom_files unloaded)
     = Some (Obj (AList.update ''port'' (Num 9000) DEFAULT_CONFIG))
   \<and> active_config (reloadConfig broken_files (loadConfig custom_files unloaded))
     = Some (Obj DEFAULT_CONFIG)
   \<and> active_config (reloadConfig broken_files (loadConfig custom_files unloaded))
     \<noteq> active_config (loadConfig custom_files unloaded)"
proof -
  have a: "active_config (reloadConfig broken_files (loadConfig custom_files unloaded))
     = Some (Obj DEFAULT_CONFIG)"
    by (simp add: reloadConfig_def loadConfig_def broken_files_def use_defaults_def)
  have "AList.update ''port'' (Num 9000) DEFAULT_CONFIG \<noteq> DEFAULT_CONFIG"
    by (simp add: DEFAULT_CONFIG_def)
  with a custom_loaded show ?thesis by simp
qed

section \<open>Fallback\<close>




section \<open>Thinking blocks\<close>

text \<open>
  C5. No delta received inside a thinking block reaches the client. Whether the
  stream is inside a thinking block is read off the upstream stream alone: among the
  events of the complete lines received so far, the latest \<open>content_block_start\<close> or
  \<open>content_block_stop\<close> is the start of a block of type \<open>thinking\<close>. Take any upstream
  stream, cut into reads in any way, whose complete lines are \<open>pre @ l # post\<close>, where
  \<open>l\<close> carries a \<open>content_block_delta\<close> event and the stream is inside a thinking block
  after \<open>pre\<close>. Then the translator writes nothing when it handles \<open>l\<close>, and everything
  written to the client over the whole stream is what would have been written had \<open>l\<close>
  never arrived: the client output does not depend on the delta, so nothing of it is
  emitted, at any point of the stream. This holds for both versions of the translator.
\<close>

theorem thinking_deltas_never_emitted:
  assumes "butlast (split_nl (concat reads)) = pre @ l # post"
      and "butlast (split_nl (concat reads')) = pre @ post"
      and "line_event parse l = Some ev"
      and "js_get ev ''type'' = Str ''content_block_delta''"
      and "inside_thinking_block (upstream_events parse pre)"
  shows "snd (process_line parse clock m
                (fst (process_lines parse clock m initial_stream_state pre)) l) = []
       \<and> snd (process_reads parse clock m initial_stream_state reads) =
         snd (process_reads parse clock m initial_stream_state reads')
       \<and> snd (process_line_plain parse clock m
                (fst (process_lines_plain parse clock m initial_stream_state pre)) l) = []
       \<and> snd (process_reads_plain parse clock m initial_stream_state reads) =
         snd (process_reads_plain parse clock m initial_stream_state reads')"
  using assms
  by (simp add: process_reads_initial process_reads_plain_initial process_lines_skip
        process_lines_plain_skip flag_is_upstream_block thinking_line_skipped
        thinking_line_skipped_plain)

theorem thinking_deltas_never_emitted_witness:
  "snd (process_reads JSON_parse_sample (\<lambda>n. 5000 + n) ''claude-sonnet-4-5'' initial_stream_state sample_stream) =
   snd (process_reads JSON_parse_sample (\<lambda>n. 5000 + n) ''claude-sonnet-4-5'' initial_stream_state
          sample_stream_without_delta)
   \<and> snd (process_reads_plain JSON_parse_sample (\<lambda>n. 5000 + n) ''claude-sonnet-4-5'' initial_stream_state sample_stream) =
   snd (process_reads_plain JSON_parse_sample (\<lambda>n. 5000 + n) ''claude-sonnet-4-5'' initial_stream_state
          sample_stream_without_delta)"
  using thinking_deltas_never_emitted [OF sample_lines sample_lines_without_delta sample_delta_event _
          sample_inside_thinking, of "\<lambda>n. 5000 + n" "''claude-sonnet-4-5''"]
  by simp

section \<open>Tool calls\<close>

text \<open>
  C6, as the code has it. Take an assistant message whose tool calls each carry an id,
  a name and an arguments string that parses as JSON to a value other than \<open>null\<close>.
  Converting the message to Anthropic \<open>tool_use\<close> blocks and converting a response made
  of these blocks back yields tool calls with the same ids, the same names and
  arguments strings that parse to the same JSON values. \<open>parse\<close> and \<open>stringify\<close>
  are JavaScript's \<^verbatim>\<open>JSON.parse\<close> and \<^verbatim>\<open>JSON.stringify\<close>; of them the theorem needs
  that a parsed value is rendered to a text that parses to the value again.
\<close>

theorem tool_call_round_trip:
  assumes "chat_role msg = ''assistant''" and "chat_tool_calls msg = Some tcs" and "tcs \<noteq> []"
      and "\<forall>tc \<in> set tcs. \<exists>v. parse (function_arguments tc) = Some v \<and> \<not> nullish v
                              \<and> parse (stringify v) = Some v"
  shows "\<exists>tcs'. tool_calls_round_trip parse stringify clock msg = Some tcs'
           \<and> map call_id tcs' = map call_id tcs
           \<and> map function_name tcs' = map function_name tcs
           \<and> map (\<lambda>tc. parse (function_arguments tc)) tcs'
               = map (\<lambda>tc. parse (function_arguments tc)) tcs"
proof -
  from assms(4) have ok: "\<forall>tc \<in> set tcs. \<exists>v. parse (function_arguments tc) = Some v \<and> \<not> nullish v"
    by blast
  let ?returned = "\<lambda>tc. \<lparr>call_id = call_id tc, call_type = ''function'', function_name = function_name tc,
                   function_arguments = stringify (the (parse (function_arguments tc)))\<rparr>"
  have "map (\<lambda>tc. parse (function_arguments tc)) (map ?returned tcs)
          = map (\<lambda>tc. parse (function_arguments tc)) tcs"
    using assms(4) by (induction tcs) auto
  with round_trip_value [OF assms(1-3) ok, of stringify clock] show ?thesis
    by (simp add: comp_def)
qed

theorem tool_call_round_trip_witness:
  "tool_calls_round_trip JSON_parse_sample JSON_stringify_sample (\<lambda>n. 5000 + n) weather_call =
     Some [\<lparr>call_id = ''call_1'', call_type = ''function'', function_name = ''get_weather'',
             function_arguments = ''{\"city\":\"Paris\"}''\<rparr>]
   \<and> JSON_parse_sample ''{\"city\":\"Paris\"}'' = Some (Obj [(''city'', Str ''Paris'')])"
proof -
  have p: "JSON_parse_sample ''{\"city\":\"Paris\"}'' = Some (Obj [(''city'', Str ''Paris'')])"
    by (simp add: JSON_parse_sample_def sample_json_def)
  have s: "JSON_stringify_sample (Obj [(''city'', Str ''Paris'')]) = ''{\"city\":\"Paris\"}''"
    by (simp add: JSON_stringify_sample_def sample_json_def)
  have hyp: "\<forall>tc \<in> set [\<lparr>call_id = ''call_1'', call_type = ''function'',
        function_name = ''get_weather'', function_arguments = ''{\"city\":\"Paris\"}''\<rparr>].
      \<exists>v. JSON_parse_sample (function_arguments tc) = Some v \<and> \<not> nullish v
         \<and> JSON_parse_sample (JSON_stringify_sample v) = Some v"
    by (simp add: p s)
  have a: "chat_role weather_call = ''assistant''"
    by (simp add: weather_call_def)
  have b: "chat_tool_calls weather_call = Some [\<lparr>call_id = ''call_1'', call_type = ''function'',
        function_name = ''get_weather'', function_arguments = ''{\"city\":\"Paris\"}''\<rparr>]"
    by (simp add: weather_call_def)
  have c: "[\<lparr>call_id = ''call_1'', call_type = ''function'',
        function_name = ''get_weather'', function_arguments = ''{\"city\":\"Paris\"}''\<rparr>] \<noteq> []"
    by simp
  from tool_call_round_trip [OF a b c hyp, of "\<lambda>n. 5000 + n"]
  obtain rt where rt:
    "tool_calls_round_trip JSON_parse_sample JSON_stringify_sample (\<lambda>n. 5000 + n) weather_call = Some rt"
    "map call_id rt = [''call_1'']" "map function_name rt = [''get_weather'']"
    "map (\<lambda>tc. JSON_parse_sample (function_arguments tc)) rt = [Some (Obj [(''city'', Str ''Paris'')])]"
    by (auto simp: p)
  have "tool_calls_round_trip JSON_parse_sample JSON_stringify_sample (\<lambda>n. 5000 + n) weather_call =
     Some [\<lparr>call_id = ''call_1'', call_type = ''function'', function_name = ''get_weather'',
             function_arguments = ''{\"city\":\"Paris\"}''\<rparr>]"
    by (simp add: tool_calls_round_trip_def convertMessagesToAnthropic_def convert_message_def Let_def
        anthropic_to_openai_def weather_call_def tool_use_block_def empty_block_def p s nullish_or_def)
  with rt p show ?thesis by simp
qed

text \<open>
  The claim as stated fails for the arguments string \<open>null\<close>, which parses as JSON:
  the way back applies \<^verbatim>\<open>b.input ?? {}\<close>, so the arguments become \<open>{}\<close>.
\<close>

theorem null_arguments_become_empty_object:
  "tool_calls_round_trip JSON_parse_sample JSON_stringify_sample (\<lambda>n. 5000 + n) null_call =
     Some [\<lparr>call_id = ''call_1'', call_type = ''function'', function_name = ''ping'',
             function_arguments = ''{}''\<rparr>]
   \<and> JSON_parse_sample ''null'' = Some Null
   \<and> JSON_parse_sample ''{}'' = Some (Obj [])
   \<and> JSON_parse_sample ''{}'' \<noteq> JSON_parse_sample ''null''"
  by (simp add: tool_calls_round_trip_def convertMessagesToAnthropic_def convert_message_def Let_def
        anthropic_to_openai_def null_call_def tool_use_block_def empty_block_def nullish_or_def
        JSON_parse_sample_def JSON_stringify_sample_def sample_json_def)

section \<open>Mode override\<close>

text \<open>
  C7, as the code has it. For every alias word of the table, in any mix of upper and
  lower case, and each of the three forms (a slash, the word and white space; the word,
  white space, "mode" and a run of colons, commas and white space; the word in brackets
  and optional white space), \<open>detectModeOverride (prefix @ text)\<close> returns the tier
  of the alias together with the rest of the prompt after the matched prefix, trimmed
  of white space at both ends. The white space run of the prefix (and, in the "mode"
  form, the run of separators) is matched greedily and so extends into the text. For a
  word of letters that is neither listed nor the name of a member inherited from
  \<open>Object.prototype\<close>, all three forms return no override.
\<close>

theorem mode_override_detected:
  assumes "word \<noteq> []" and "\<forall>c \<in> set word. is_letter c"
      and "ws \<noteq> []" and "\<forall>c \<in> set ws. is_space c" and "\<forall>c \<in> set ws0. is_space c"
      and "toLowerCase md = ''mode''" and "sep \<noteq> []" and "\<forall>c \<in> set sep. is_sep c"
  shows "(map_of modeMap (toLowerCase word) = Some tier \<longrightarrow>
            detectModeOverride (''/'' @ word @ ws @ text) = Some (TierName tier, trim text)
          \<and> detectModeOverride (word @ ws @ md @ sep @ text)
              = Some (TierName tier, trim (dropWhile is_sep text))
          \<and> detectModeOverride (''['' @ word @ '']'' @ ws0 @ text) = Some (TierName tier, trim text))
       \<and> (modeMap_get (toLowerCase word) = None \<longrightarrow>
            detectModeOverride (''/'' @ word @ ws @ text) = None
          \<and> detectModeOverride (word @ ws @ md @ sep @ text) = None
          \<and> detectModeOverride (''['' @ word @ '']'' @ ws0 @ text) = None)"
proof -
  note s = slash_form [OF assms(1-4), of "text"]
  note p = prefix_form [OF assms(1-4) assms(6-8), of "text"]
  note b = bracket_form [OF assms(1,2,5), of "text"]
  note l = letter_only [OF assms(1,2), of "ws @ md @ sep @ text"]
  have s': "prefixMatch (''/'' @ word @ ws @ text) = None" "bracketMatch (''/'' @ word @ ws @ text) = None"
    using slash_only [of "word @ ws @ text"] by simp_all
  have b': "slashMatch (''['' @ word @ '']'' @ ws0 @ text) = None"
           "prefixMatch (''['' @ word @ '']'' @ ws0 @ text) = None"
    using bracket_only [of "word @ '']'' @ ws0 @ text"] by simp_all
  show ?thesis
  proof (intro conjI impI)
    assume "map_of modeMap (toLowerCase word) = Some tier"
    then have g: "modeMap_get (toLowerCase word) = Some (TierName tier)"
      by (simp add: modeMap_get_def)
    show "detectModeOverride (''/'' @ word @ ws @ text) = Some (TierName tier, trim text)"
      by (simp only: detectModeOverride_def s) (simp add: override_of_def g)
    show "detectModeOverride (word @ ws @ md @ sep @ text)
              = Some (TierName tier, trim (dropWhile is_sep text))"
      by (simp only: detectModeOverride_def l p) (simp add: override_of_def g)
    show "detectModeOverride (''['' @ word @ '']'' @ ws0 @ text) = Some (TierName tier, trim text)"
      by (simp only: detectModeOverride_def b b') (simp add: override_of_def g)
  next
    assume g: "modeMap_get (toLowerCase word) = None"
    show "detectModeOverride (''/'' @ word @ ws @ text) = None"
      by (simp only: detectModeOverride_def s s') (simp add: override_of_def g)
    show "detectModeOverride (word @ ws @ md @ sep @ text) = None"
      by (simp only: detectModeOverride_def l p) (simp add: override_of_def g)
    show "detectModeOverride (''['' @ word @ '']'' @ ws0 @ text) = None"
      by (simp only: detectModeOverride_def b b') (simp add: override_of_def g)
  qed
qed

theorem mode_override_detected_witness:
  "detectModeOverride (''/'' @ ''MAX'' @ '' '' @ ''analyze this'') = Some (TierName ''REASONING'', ''analyze this'')
   \<and> detectModeOverride (''MAX'' @ '' '' @ ''Mode'' @ '': '' @ ''analyze this'')
       = Some (TierName ''REASONING'', ''analyze this'')
   \<and> detectModeOverride (''['' @ ''MAX'' @ '']'' @ [] @ ''analyze this'')
       = Some (TierName ''REASONING'', ''analyze this'')
   \<and> detectModeOverride (''/'' @ ''turbo'' @ '' '' @ ''analyze this'') = None
   \<and> detectModeOverride (''turbo'' @ '' '' @ ''Mode'' @ '': '' @ ''analyze this'') = None
   \<and> detectModeOverride (''['' @ ''turbo'' @ '']'' @ [] @ ''analyze this'') = None"
proof -
  have w: "''MAX'' \<noteq> []" "\<forall>c \<in> set ''MAX''. is_letter c" "''turbo'' \<noteq> []" "\<forall>c \<in> set ''turbo''. is_letter c"
    by (simp_all add: is_letter_def)
  have sp: "'' '' \<noteq> []" "\<forall>c \<in> set '' ''. is_space c" "\<forall>c \<in> set []. is_space c"
    by (simp_all add: is_space_def)
  have md: "toLowerCase ''Mode'' = ''mode''"
    by (simp add: toLowerCase_def lower_char_def)
  have se: "'': '' \<noteq> []" "\<forall>c \<in> set '': ''. is_sep c"
    by (simp_all add: is_sep_def is_space_def)
  have listed: "map_of modeMap (toLowerCase ''MAX'') = Some ''REASONING''"
    by (simp add: toLowerCase_def lower_char_def modeMap_def)
  have unlisted: "modeMap_get (toLowerCase ''turbo'') = None"
    by (simp add: toLowerCase_def lower_char_def modeMap_get_def modeMap_def Object_prototype_keys_def)
  have t: "trim ''analyze this'' = ''analyze this''" "trim (dropWhile is_sep ''analyze this'') = ''analyze this''"
    by (simp_all add: trim_def is_space_def is_sep_def)
  from mode_override_detected [OF w(1,2) sp md se, of "''REASONING''" "''analyze this''"] listed t
       mode_override_detected [OF w(3,4) sp md se, of "''REASONING''" "''analyze this''"] unlisted
  show ?thesis by simp
qed

text \<open>
  The claim as stated fails on a text that ends (or begins) with white space: the
  cleaned prompt is trimmed.
\<close>

theorem mode_override_trims_text:
  "detectModeOverride (''/max '' @ ''hi '') = Some (TierName ''REASONING'', ''hi'')
   \<and> detectModeOverride (''/max '' @ ''hi '') \<noteq> Some (TierName ''REASONING'', ''hi '')"
  by (simp add: detectModeOverride_def override_of_def slashMatch_def is_letter_def is_space_def
       toLowerCase_def lower_char_def modeMap_get_def modeMap_def trim_def)

section \<open>Tool choice\<close>

text \<open>
  C9. The translation of \<open>tool_choice\<close> is a total function whose default is auto: every
  value other than "none", "auto", "required", undefined and an object carrying
  \<open>function.name\<close> is translated to \<open>{type: "auto"}\<close>. In particular an arbitrary
  string and an object without a function name give auto. The function has no failing
  branch: its result is always an object with a \<open>type\<close>.
\<close>

theorem tool_choice_defaults_to_auto:
  "(toolChoice \<notin> {Str ''none'', Str ''auto'', Str ''required'', Undefined}
      \<and> \<not> carries_function_name toolChoice
    \<longrightarrow> convertToolChoiceToAnthropic toolChoice = Obj [(''type'', Str ''auto'')])
   \<and> (\<exists>t. js_get (convertToolChoiceToAnthropic toolChoice) ''type'' = Str t
          \<and> t \<in> {''none'', ''auto'', ''any'', ''tool''})"
  by (simp add: convertToolChoiceToAnthropic_def carries_function_name_def)

theorem tool_choice_defaults_to_auto_witness:
  "Str ''sometimes'' \<notin> {Str ''none'', Str ''auto'', Str ''required'', Undefined}
   \<and> \<not> carries_function_name (Str ''sometimes'')
   \<and> convertToolChoiceToAnthropic (Str ''sometimes'') = Obj [(''type'', Str ''auto'')]
   \<and> \<not> carries_function_name (Obj [(''type'', Str ''function'')])
   \<and> convertToolChoiceToAnthropic (Obj [(''type'', Str ''function'')]) = Obj [(''type'', Str ''auto'')]"
  using tool_choice_defaults_to_auto [of "Str ''sometimes''"]
        tool_choice_defaults_to_auto [of "Obj [(''type'', Str ''function'')]"]
  by (simp add: carries_function_name_def opt_get_def)

section \<open>Streaming chunks\<close>

text \<open>
  C10. Every chunk the Anthropic stream translator writes to the client has
  \<open>object = "chat.completion.chunk"\<close> and a \<open>choices\<close> array of exactly one element,
  whose index is 0: text chunks, tool-call chunks and the final chunk alike, in both
  versions of the translator. (The only other thing the translator writes is the
  literal line \<open>data: [DONE]\<close>.)
\<close>

theorem stream_chunks_have_one_choice:
  assumes "forwardToAnthropic up m res0 stream = (res', r)
           \<or> forwardToAnthropic_plain up m res0 stream = (res', r)"
      and "SseChunk c \<in> set (body res')" and "SseChunk c \<notin> set (body res0)"
  shows "chunk_object c = ''chat.completion.chunk''
         \<and> (\<exists>ch. choices c = [ch] \<and> choice_index ch = 0)"
  using assms forwardToAnthropic_body [of up m res0 stream res' r "SseChunk c"]
        forwardToAnthropic_plain_body [of up m res0 stream res' r "SseChunk c"]
  by (auto simp: DONE_def)

theorem stream_chunks_have_one_choice_witness:
  "SseChunk
     \<lparr>chunk_id = ''chatcmpl-5000'', chunk_object = ''chat.completion.chunk'',
        chunk_created = 5, chunk_model = ''clawrouter/claude-sonnet-4-5'',
        choices = [\<lparr>choice_index = 0, delta = Obj [(''content'', Str ''Hi'')], finish_reason = None\<rparr>]\<rparr>
     \<in> set (body (fst (forwardToAnthropic sample_upstream ''claude-sonnet-4-5'' new_response True)))
   \<and> (\<exists>ch. [\<lparr>choice_index = 0, delta = Obj [(''content'', Str ''Hi'')], finish_reason = None\<rparr>] = [ch]
          \<and> choice_index ch = 0)"
proof -
  let ?c = "\<lparr>chunk_id = ''chatcmpl-5000'', chunk_object = ''chat.completion.chunk'',
                chunk_created = 5, chunk_model = ''clawrouter/claude-sonnet-4-5'',
                choices = [\<lparr>choice_index = 0, delta = Obj [(''content'', Str ''Hi'')],
                            finish_reason = None\<rparr>]\<rparr>"
  have written: "SseChunk ?c
      \<in> set (body (fst (forwardToAnthropic sample_upstream ''claude-sonnet-4-5'' new_response True)))"
    by (simp add: sample_run)
  have fresh: "SseChunk ?c \<notin> set (body new_response)"
    by (simp add: new_response_def)
  from stream_chunks_have_one_choice [OF disjI1 [OF sample_run] _ fresh] written
  show ?thesis by simp
qed

end
